theory Spec2Isabelle
  imports Main
begin

section \<open>Python values, exceptions and effects\<close>

text \<open>
  The harness is Python: \<^verbatim>\<open>examples/conftest.py\<close> (pytest fixtures and the readiness
  probe) and \<^verbatim>\<open>.github/scripts/integration_test.py\<close> (four checks and the runner
  \<^verbatim>\<open>main\<close>). Its functions are embedded as HOL functions over an explicit world.

  Values exchanged with boto3 and with \<^verbatim>\<open>response.json()\<close> are JSON-like; bytes are
  kept as strings.
\<close>

datatype json =
    JNull
  | JBool bool
  | JInt int
  | JStr string
  | JList "json list"
  | JObj "(string \<times> json) list"

text \<open>
  Instances of \<^verbatim>\<open>Exception\<close>, each with the text \<^verbatim>\<open>str(e)\<close> gives. The first
  constructor stands for the whole \<^verbatim>\<open>requests.RequestException\<close> family (connection
  refused, reset, timeout, ...), \<open>ClientError\<close> for what a boto3 call raises, and
  \<open>OtherException\<close> for any other subclass of \<^verbatim>\<open>Exception\<close>. Classes outside
  \<^verbatim>\<open>Exception\<close> (pytest's skip and fail outcomes, \<^verbatim>\<open>SystemExit\<close>) are results of
  their own below; asynchronous signals are outside the model.
\<close>

datatype exn =
    RequestException string
  | AssertionError string
  | ClientError string
  | KeyError string
  | IndexError string
  | TypeError string
  | AttributeError string
  | TimeoutExpired string
  | OtherException string

fun str_exn :: "exn \<Rightarrow> string" where
  "str_exn (RequestException m) = m"
| "str_exn (AssertionError m) = m"
| "str_exn (ClientError m) = m"
| "str_exn (KeyError m) = m"
| "str_exn (IndexError m) = m"
| "str_exn (TypeError m) = m"
| "str_exn (AttributeError m) = m"
| "str_exn (TimeoutExpired m) = m"
| "str_exn (OtherException m) = m"

fun is_RequestException :: "exn \<Rightarrow> bool" where
  "is_RequestException (RequestException m) = True"
| "is_RequestException e = False"

text \<open>
  A call that leaves the process: \<^verbatim>\<open>requests.get(url, timeout=t)\<close> or a boto3 client
  method \<^verbatim>\<open>client.op(**kwargs)\<close> of the client made for \<open>service\<close>.
\<close>

datatype call =
    HttpGet string nat
  | Boto string string "(string \<times> json) list"

record response =
  status_code :: int
  json_body :: "json option"

text \<open>
  The world of \<^verbatim>\<open>integration_test.py\<close>. The remote service is opaque: what it
  answers to a call may depend on every call made so far, so \<open>http\<close> and \<open>aws\<close> map the
  history of calls, the current one last, to the outcome of the current one.
  \<open>uuid_hex\<close> is the stream of values of \<^verbatim>\<open>uuid.uuid4().hex\<close>, \<open>stdout\<close> the lines
  printed so far, \<open>clock\<close> the milliseconds slept.
\<close>

record world =
  http :: "call list \<Rightarrow> exn + response"
  aws :: "call list \<Rightarrow> exn + json"
  history :: "call list"
  uuid_hex :: "nat \<Rightarrow> string"
  uuid_count :: nat
  stdout :: "string list"
  clock :: nat

type_synonym 'a py = "world \<Rightarrow> (exn + 'a) \<times> world"

definition ret :: "'a \<Rightarrow> 'a py" where
  "ret x w = (Inr x, w)"

definition raise :: "exn \<Rightarrow> 'a py" where
  "raise e w = (Inl e, w)"

definition py_bind :: "'a py \<Rightarrow> ('a \<Rightarrow> 'b py) \<Rightarrow> 'b py" where
  "py_bind m f w = (case m w of (Inl e, w') \<Rightarrow> (Inl e, w') | (Inr x, w') \<Rightarrow> f x w')"

definition py_then :: "'a py \<Rightarrow> 'b py \<Rightarrow> 'b py" where
  "py_then m k = py_bind m (\<lambda>_. k)"

text \<open>\<^verbatim>\<open>try: m  except Exception as e: h(e)\<close>; every \<open>exn\<close> is an \<^verbatim>\<open>Exception\<close>.\<close>

definition try_except :: "'a py \<Rightarrow> (exn \<Rightarrow> 'a py) \<Rightarrow> 'a py" where
  "try_except m h w = (case m w of (Inl e, w') \<Rightarrow> h e w' | (Inr x, w') \<Rightarrow> (Inr x, w'))"

definition print :: "string \<Rightarrow> unit py" where
  "print s w = (Inr (), w\<lparr>stdout := stdout w @ [s]\<rparr>)"

definition py_assert :: "bool \<Rightarrow> string \<Rightarrow> unit py" where
  "py_assert b msg = (if b then ret () else raise (AssertionError msg))"

definition requests_get :: "string \<Rightarrow> nat \<Rightarrow> response py" where
  "requests_get url t w =
     (let h = history w @ [HttpGet url t] in (http w h, w\<lparr>history := h\<rparr>))"

definition boto :: "string \<Rightarrow> string \<Rightarrow> (string \<times> json) list \<Rightarrow> json py" where
  "boto service op kwargs w =
     (let h = history w @ [Boto service op kwargs] in (aws w h, w\<lparr>history := h\<rparr>))"

definition uuid4_hex :: "string py" where
  "uuid4_hex w = (Inr (uuid_hex w (uuid_count w)), w\<lparr>uuid_count := uuid_count w + 1\<rparr>)"

definition time_sleep :: "nat \<Rightarrow> unit py" where
  "time_sleep ms w = (Inr (), w\<lparr>clock := clock w + ms\<rparr>)"

section \<open>The run aggregator: \<^verbatim>\<open>main\<close> of integration_test.py\<close>

text \<open>Decimal text of a number, as \<^verbatim>\<open>str\<close> and f-strings give it.\<close>

fun str_nat :: "nat \<Rightarrow> string" where
  "str_nat n = (if n < 10 then [char_of (48 + n)] else str_nat (n div 10) @ [char_of (48 + n mod 10)])"

definition str_int :: "int \<Rightarrow> string" where
  "str_int i = (if i < 0 then CHR ''-'' # str_nat (nat (- i)) else str_nat (nat i))"

text \<open>The marks printed by the script, as their UTF-8 bytes.\<close>

definition check_mark :: string where
  "check_mark = [char_of (226::nat), char_of (156::nat), char_of (147::nat)]"

definition cross_mark :: string where
  "cross_mark = [char_of (226::nat), char_of (156::nat), char_of (151::nat)]"

definition banner :: string where
  "banner = replicate 60 CHR ''=''"

text \<open>
  A test is a Python function: its \<^verbatim>\<open>__name__\<close> and its body. The loop
  \<^verbatim>\<open>
    failed = []
    for test in tests:
        try:
            test()
            print()
        except Exception as e:
            print(f"x {test.__name__} FAILED: {e}")
            print()
            failed.append((test.__name__, str(e)))
  \<close>
  (where \<^verbatim>\<open>x\<close> stands for the cross mark) is a recursion over the list, carrying
  \<open>failed\<close>. Beside it the model carries
  \<open>called\<close>, the names of the tests called so far, which the source does not store.
\<close>

type_synonym test = "string \<times> unit py"

fun run_tests :: "test list \<Rightarrow> (string \<times> string) list \<Rightarrow> string list \<Rightarrow> world
    \<Rightarrow> (string \<times> string) list \<times> string list \<times> world" where
  "run_tests [] failed called w = (failed, called, w)"
| "run_tests (t # ts) failed called w =
     (case snd t w of
        (Inr u, w1) \<Rightarrow> run_tests ts failed (called @ [fst t]) (snd (print [] w1))
      | (Inl e, w1) \<Rightarrow>
          run_tests ts (failed @ [(fst t, str_exn e)]) (called @ [fst t])
            (snd (print [] (snd (print (cross_mark @ '' '' @ fst t @ '' FAILED: '' @ str_exn e) w1)))))"

definition failure_line :: "string \<times> string \<Rightarrow> string" where
  "failure_line f = ''  - '' @ fst f @ '': '' @ snd f"

fun print_all :: "string list \<Rightarrow> world \<Rightarrow> world" where
  "print_all [] w = w"
| "print_all (s # ss) w = print_all ss (snd (print s w))"

text \<open>
  \<^verbatim>\<open>main\<close> for a given list of tests. It always ends in \<^verbatim>\<open>sys.exit\<close>; the result is
  the exit code and the final world.
\<close>

definition endpoint_url :: string where
  "endpoint_url = ''http://localhost:4566''"

definition print_header :: "world \<Rightarrow> world" where
  "print_header w =
     print_all [banner, ''RustStack Integration Tests'', banner, ''Endpoint: '' @ endpoint_url, []] w"

definition main_with :: "test list \<Rightarrow> world \<Rightarrow> int \<times> world" where
  "main_with tests w =
     (let w1 = print_header w;
          (failed, called, w2) = run_tests tests [] [] w1;
          w3 = snd (print banner w2)
      in if failed \<noteq> [] then
           (1, print_all
                 ((''FAILED: '' @ str_nat (length failed) @ ''/'' @ str_nat (length tests) @ '' tests'')
                  # map failure_line failed) w3)
         else
           (0, snd (print (''PASSED: '' @ str_nat (length tests) @ ''/'' @ str_nat (length tests)
                            @ '' tests'') w3)))"


text \<open>
  What the loop does with test number \<open>i\<close>, read off the loop itself: the world in
  which it calls that test is the one left by the tests before it, and the outcome of
  the test is what its body does there.
\<close>

definition world_before :: "test list \<Rightarrow> nat \<Rightarrow> world \<Rightarrow> world" where
  "world_before tests i w = snd (snd (run_tests (take i tests) [] [] w))"

definition test_outcome :: "test list \<Rightarrow> nat \<Rightarrow> world \<Rightarrow> exn + unit" where
  "test_outcome tests i w = fst (snd (tests ! i) (world_before tests i w))"

definition failure_of :: "test list \<Rightarrow> world \<Rightarrow> nat \<Rightarrow> (string \<times> string) list" where
  "failure_of tests w i =
     (case test_outcome tests i w of
        Inl e \<Rightarrow> [(fst (tests ! i), str_exn e)]
      | Inr u \<Rightarrow> [])"

definition failures :: "test list \<Rightarrow> world \<Rightarrow> (string \<times> string) list" where
  "failures tests w = concat (map (failure_of tests w) [0..<length tests])"

section \<open>Properties of the aggregator\<close>

declare str_nat.simps [simp del]

lemma run_tests_acc:
  "run_tests ts failed called w =
     (failed @ fst (run_tests ts [] [] w), called @ fst (snd (run_tests ts [] [] w)),
      snd (snd (run_tests ts [] [] w)))"
proof (induction ts arbitrary: failed called w)
  case Nil
  show ?case by simp
next
  case (Cons t ts)
  show ?case
  proof (cases "snd t w")
    case (Pair r w1)
    show ?thesis
    proof (cases r)
      case (Inl e)
      with Pair show ?thesis
        using Cons.IH [of "failed @ [(fst t, str_exn e)]" "called @ [fst t]"]
              Cons.IH [of "[(fst t, str_exn e)]" "[fst t]"]
        by simp
    next
      case (Inr u)
      with Pair show ?thesis
        using Cons.IH [of failed "called @ [fst t]"] Cons.IH [of "[]" "[fst t]"]
        by simp
    qed
  qed
qed

lemma run_tests_append:
  "run_tests (xs @ ys) failed called w =
     (case run_tests xs failed called w of (f1, c1, w1) \<Rightarrow> run_tests ys f1 c1 w1)"
proof (induction xs arbitrary: failed called w)
  case Nil
  show ?case by simp
next
  case (Cons t xs)
  show ?case
    by (cases "snd t w") (auto simp: Cons.IH split: sum.splits)
qed

lemma run_tests_called: "fst (snd (run_tests ts failed called w)) = called @ map fst ts"
proof (induction ts arbitrary: failed called w)
  case Nil
  show ?case by simp
next
  case (Cons t ts)
  show ?case
    by (cases "snd t w") (auto simp: Cons.IH split: sum.splits)
qed

lemma world_before_snoc:
  "i \<le> length ts \<Longrightarrow> world_before (ts @ [t]) i w = world_before ts i w"
  by (simp add: world_before_def)

lemma failure_of_snoc:
  "i < length ts \<Longrightarrow> failure_of (ts @ [t]) w i = failure_of ts w i"
  by (simp add: failure_of_def test_outcome_def world_before_def nth_append split: sum.splits)

lemma failures_snoc:
  "failures (ts @ [t]) w = failures ts w @ failure_of (ts @ [t]) w (length ts)"
proof -
  have "map (failure_of (ts @ [t]) w) [0..<length ts] = map (failure_of ts w) [0..<length ts]"
    by (rule map_cong) (simp_all add: failure_of_snoc)
  then have "concat (map (failure_of (ts @ [t]) w) [0..<length ts]) = failures ts w"
    by (simp only: failures_def)
  then show ?thesis by (simp add: failures_def)
qed

lemma run_tests_single:
  "fst (run_tests [t] [] [] w) =
     (case fst (snd t w) of Inl e \<Rightarrow> [(fst t, str_exn e)] | Inr u \<Rightarrow> [])"
  by (cases "snd t w") (auto split: sum.splits)

lemma run_tests_failures: "fst (run_tests ts [] [] w) = failures ts w"
proof (induction ts rule: rev_induct)
  case Nil
  show ?case by (simp add: failures_def)
next
  case (snoc t ts)
  obtain f1 c1 w1 where r: "run_tests ts [] [] w = (f1, c1, w1)"
    by (cases "run_tests ts [] [] w") auto
  have wb: "world_before (ts @ [t]) (length ts) w = w1"
    using r by (simp add: world_before_def)
  have "fst (run_tests (ts @ [t]) [] [] w) = f1 @ fst (run_tests [t] [] [] w1)"
    using r run_tests_acc [of "[t]" f1 c1 w1] by (simp add: run_tests_append)
  also have "f1 = failures ts w"
    using snoc.IH r by simp
  also have "fst (run_tests [t] [] [] w1) = failure_of (ts @ [t]) w (length ts)"
    by (simp only: run_tests_single failure_of_def test_outcome_def wb nth_append_length)
  finally show ?case by (simp add: failures_snoc)
qed


section \<open>Python operations on boto3 and JSON results\<close>

text \<open>
  The operations the test bodies apply to what a call returned. A result of the wrong
  shape raises as Python does; the texts of those built-in errors are abbreviated.
\<close>

text \<open>The single quote that \<^verbatim>\<open>repr\<close> puts around a string.\<close>

definition quote :: string where
  "quote = [char_of (39::nat)]"

definition py_getitem :: "json \<Rightarrow> string \<Rightarrow> json py" where
  "py_getitem d k =
     (case d of
        JObj kv \<Rightarrow> (case map_of kv k of Some v \<Rightarrow> ret v | None \<Rightarrow> raise (KeyError (quote @ k @ quote)))
      | _ \<Rightarrow> raise (TypeError ''not subscriptable by a string''))"

definition py_get :: "json \<Rightarrow> string \<Rightarrow> json \<Rightarrow> json py" where
  "py_get d k dflt =
     (case d of
        JObj kv \<Rightarrow> ret (case map_of kv k of Some v \<Rightarrow> v | None \<Rightarrow> dflt)
      | _ \<Rightarrow> raise (AttributeError ''object has no attribute get''))"

definition py_len :: "json \<Rightarrow> nat py" where
  "py_len x =
     (case x of
        JList xs \<Rightarrow> ret (length xs)
      | JObj kv \<Rightarrow> ret (length kv)
      | JStr s \<Rightarrow> ret (length s)
      | _ \<Rightarrow> raise (TypeError ''object has no len()''))"

definition py_iter :: "json \<Rightarrow> json list py" where
  "py_iter x =
     (case x of
        JList xs \<Rightarrow> ret xs
      | JObj kv \<Rightarrow> ret (map (\<lambda>p. JStr (fst p)) kv)
      | JStr s \<Rightarrow> ret (map (\<lambda>c. JStr [c]) s)
      | _ \<Rightarrow> raise (TypeError ''object is not iterable''))"

definition py_first :: "json \<Rightarrow> json py" where
  "py_first x =
     (case x of
        JList xs \<Rightarrow> (case xs of [] \<Rightarrow> raise (IndexError ''list index out of range'') | y # ys \<Rightarrow> ret y)
      | JObj kv \<Rightarrow> raise (KeyError ''0'')
      | JStr s \<Rightarrow> (case s of [] \<Rightarrow> raise (IndexError ''string index out of range'') | c # cs \<Rightarrow> ret (JStr [c]))
      | _ \<Rightarrow> raise (TypeError ''object is not subscriptable''))"

text \<open>\<^verbatim>\<open>response["Body"].read()\<close>: the body of an object is a stream of bytes.\<close>

definition py_read :: "json \<Rightarrow> string py" where
  "py_read x =
     (case x of
        JStr s \<Rightarrow> ret s
      | _ \<Rightarrow> raise (AttributeError ''object has no attribute read''))"

text \<open>\<^verbatim>\<open>response.json()\<close> raises, within the requests family, when the body is not JSON.\<close>

definition response_json :: "response \<Rightarrow> json py" where
  "response_json r =
     (case json_body r of
        Some j \<Rightarrow> ret j
      | None \<Rightarrow> raise (RequestException ''Expecting value''))"

fun py_map :: "('a \<Rightarrow> 'b py) \<Rightarrow> 'a list \<Rightarrow> 'b list py" where
  "py_map f [] = ret []"
| "py_map f (x # xs) = py_bind (f x) (\<lambda>y. py_bind (py_map f xs) (\<lambda>ys. ret (y # ys)))"

fun py_for :: "'a list \<Rightarrow> ('a \<Rightarrow> unit py) \<Rightarrow> unit py" where
  "py_for [] body = ret ()"
| "py_for (x # xs) body = py_then (body x) (py_for xs body)"

text \<open>
  \<^verbatim>\<open>repr\<close> and \<^verbatim>\<open>str\<close>, for the f-strings of the assertion messages. Strings are
  quoted without escapes.
\<close>

fun py_repr :: "json \<Rightarrow> string"
  and py_repr_list :: "json list \<Rightarrow> string"
  and py_repr_items :: "(string \<times> json) list \<Rightarrow> string" where
  "py_repr JNull = ''None''"
| "py_repr (JBool b) = (if b then ''True'' else ''False'')"
| "py_repr (JInt i) = str_int i"
| "py_repr (JStr s) = quote @ s @ quote"
| "py_repr (JList xs) = ''['' @ py_repr_list xs @ '']''"
| "py_repr (JObj kv) = ''{'' @ py_repr_items kv @ ''}''"
| "py_repr_list [] = []"
| "py_repr_list [x] = py_repr x"
| "py_repr_list (x # y # ys) = py_repr x @ '', '' @ py_repr_list (y # ys)"
| "py_repr_items [] = []"
| "py_repr_items [(k, v)] = quote @ k @ quote @ '': '' @ py_repr v"
| "py_repr_items ((k, v) # p # ps) = quote @ k @ quote @ '': '' @ py_repr v @ '', '' @ py_repr_items (p # ps)"

definition py_str :: "json \<Rightarrow> string" where
  "py_str x = (case x of JStr s \<Rightarrow> s | _ \<Rightarrow> py_repr x)"

text \<open>\<^verbatim>\<open>try: m  except: pass\<close>\<close>

definition ignore_errors :: "'a py \<Rightarrow> unit py" where
  "ignore_errors m = try_except (py_then m (ret ())) (\<lambda>e. ret ())"


section \<open>The four checks of integration_test.py\<close>

text \<open>\<^verbatim>\<open>get_client(service)\<close> builds a boto3 client without any network call; a
  client is its service name, and \<open>boto\<close> calls one of its methods.\<close>

definition test_health_check :: "unit py" where
  "test_health_check =
     py_then (print ''Testing health check...'')
    (py_bind (requests_get (endpoint_url @ ''/health'') 10) (\<lambda>response.
     py_then (py_assert (status_code response = 200)
                (''Health check failed: '' @ str_int (status_code response)))
    (py_bind (response_json response) (\<lambda>data.
     py_bind (py_get data ''status'' JNull) (\<lambda>status.
     py_then (py_assert (status = JStr ''running'') (''Unexpected status: '' @ py_repr data))
    (print (check_mark @ '' Health check passed'')))))))"

definition object_key :: string where
  "object_key = ''test-object.txt''"

definition object_content :: string where
  "object_content = ''Hello, RustStack!''"

text \<open>The body of the \<^verbatim>\<open>try\<close> block of \<^verbatim>\<open>test_s3_operations\<close>.\<close>

definition s3_steps :: "string \<Rightarrow> unit py" where
  "s3_steps bucket_name =
     py_then (boto ''s3'' ''create_bucket'' [(''Bucket'', JStr bucket_name)])
    (py_then (print (''  Created bucket: '' @ bucket_name))
    (py_bind (boto ''s3'' ''list_buckets'' []) (\<lambda>buckets.
     py_bind (py_getitem buckets ''Buckets'') (\<lambda>bs.
     py_bind (py_iter bs) (\<lambda>bl.
     py_bind (py_map (\<lambda>b. py_getitem b ''Name'') bl) (\<lambda>bucket_names.
     py_then (py_assert (JStr bucket_name \<in> set bucket_names)
                (''Bucket not found in list: '' @ py_repr (JList bucket_names)))
    (py_then (print (''  Listed buckets: '' @ str_nat (length bucket_names) @ '' buckets''))
    (py_then (boto ''s3'' ''put_object''
                [(''Bucket'', JStr bucket_name), (''Key'', JStr object_key), (''Body'', JStr object_content)])
    (py_then (print (''  Put object: '' @ object_key))
    (py_bind (boto ''s3'' ''get_object'' [(''Bucket'', JStr bucket_name), (''Key'', JStr object_key)])
       (\<lambda>response.
     py_bind (py_getitem response ''Body'') (\<lambda>body.
     py_bind (py_read body) (\<lambda>retrieved_content.
     py_then (py_assert (retrieved_content = object_content) ''Object content mismatch'')
    (py_then (print (''  Got object: '' @ str_nat (length retrieved_content) @ '' bytes''))
    (py_bind (boto ''s3'' ''list_objects_v2'' [(''Bucket'', JStr bucket_name)]) (\<lambda>response.
     py_bind (py_get response ''Contents'' (JList [])) (\<lambda>objects.
     py_bind (py_len objects) (\<lambda>n.
     py_then (py_assert (n = 1) (''Expected 1 object, got '' @ str_nat n))
    (py_bind (py_first objects) (\<lambda>obj.
     py_bind (py_getitem obj ''Key'') (\<lambda>key.
     py_then (py_assert (key = JStr object_key) [])
    (py_then (print (''  Listed objects: '' @ str_nat n @ '' objects''))
    (py_then (boto ''s3'' ''delete_object'' [(''Bucket'', JStr bucket_name), (''Key'', JStr object_key)])
    (py_then (print (''  Deleted object: '' @ object_key))
    (py_then (boto ''s3'' ''delete_bucket'' [(''Bucket'', JStr bucket_name)])
    (print (''  Deleted bucket: '' @ bucket_name)))))))))))))))))))))))))))"

text \<open>The handler of that block: \<^verbatim>\<open>Cleanup on failure\<close>, two guarded calls.\<close>

definition s3_cleanup :: "string \<Rightarrow> unit py" where
  "s3_cleanup bucket_name =
     py_then (ignore_errors
                (boto ''s3'' ''delete_object'' [(''Bucket'', JStr bucket_name), (''Key'', JStr object_key)]))
             (ignore_errors (boto ''s3'' ''delete_bucket'' [(''Bucket'', JStr bucket_name)]))"

definition test_s3_operations :: "unit py" where
  "test_s3_operations =
     py_then (print ''Testing S3 operations...'')
    (py_bind uuid4_hex (\<lambda>u.
     let bucket_name = ''test-bucket-'' @ take 8 u in
     py_then (try_except (s3_steps bucket_name)
                (\<lambda>e. py_then (s3_cleanup bucket_name) (raise e)))
             (print (check_mark @ '' S3 operations passed''))))"

definition user_key :: "(string \<times> json) list" where
  "user_key = [(''pk'', JObj [(''S'', JStr ''user#123'')]), (''sk'', JObj [(''S'', JStr ''profile'')])]"

definition table_schema :: "string \<Rightarrow> (string \<times> json) list" where
  "table_schema table_name =
     [(''TableName'', JStr table_name),
      (''KeySchema'', JList
         [JObj [(''AttributeName'', JStr ''pk''), (''KeyType'', JStr ''HASH'')],
          JObj [(''AttributeName'', JStr ''sk''), (''KeyType'', JStr ''RANGE'')]]),
      (''AttributeDefinitions'', JList
         [JObj [(''AttributeName'', JStr ''pk''), (''AttributeType'', JStr ''S'')],
          JObj [(''AttributeName'', JStr ''sk''), (''AttributeType'', JStr ''S'')]]),
      (''BillingMode'', JStr ''PAY_PER_REQUEST'')]"

definition user_item :: json where
  "user_item = JObj
     [(''pk'', JObj [(''S'', JStr ''user#123'')]),
      (''sk'', JObj [(''S'', JStr ''profile'')]),
      (''name'', JObj [(''S'', JStr ''Test User'')]),
      (''email'', JObj [(''S'', JStr ''test@example.com'')]),
      (''age'', JObj [(''N'', JStr ''25'')])]"

definition dynamodb_steps :: "string \<Rightarrow> unit py" where
  "dynamodb_steps table_name =
     py_then (boto ''dynamodb'' ''create_table'' (table_schema table_name))
    (py_then (print (''  Created table: '' @ table_name))
    (py_then (time_sleep 500)
    (py_bind (boto ''dynamodb'' ''describe_table'' [(''TableName'', JStr table_name)]) (\<lambda>response.
     py_bind (py_getitem response ''Table'') (\<lambda>table.
     py_bind (py_getitem table ''TableStatus'') (\<lambda>status.
     py_then (py_assert (status = JStr ''ACTIVE'') (''Table not active: '' @ py_str status))
    (py_then (print (''  Table status: '' @ py_str status))
    (py_then (boto ''dynamodb'' ''put_item'' [(''TableName'', JStr table_name), (''Item'', user_item)])
    (py_then (print ''  Put item'')
    (py_bind (boto ''dynamodb'' ''get_item'' [(''TableName'', JStr table_name), (''Key'', JObj user_key)])
       (\<lambda>response.
     py_bind (py_get response ''Item'' JNull) (\<lambda>retrieved_item.
     py_then (py_assert (retrieved_item \<noteq> JNull) ''Item not found'')
    (py_bind (py_getitem retrieved_item ''name'') (\<lambda>name.
     py_bind (py_getitem name ''S'') (\<lambda>name_s.
     py_then (py_assert (name_s = JStr ''Test User'') [])
    (py_then (print ''  Got item'')
    (py_bind (boto ''dynamodb'' ''query''
                [(''TableName'', JStr table_name),
                 (''KeyConditionExpression'', JStr ''pk = :pk''),
                 (''ExpressionAttributeValues'', JObj [('':pk'', JObj [(''S'', JStr ''user#123'')])])])
       (\<lambda>response.
     py_bind (py_get response ''Items'' (JList [])) (\<lambda>items.
     py_bind (py_len items) (\<lambda>n.
     py_then (py_assert (n = 1) (''Expected 1 item, got '' @ str_nat n))
    (py_then (print (''  Query returned '' @ str_nat n @ '' items''))
    (py_then (boto ''dynamodb'' ''update_item''
                [(''TableName'', JStr table_name),
                 (''Key'', JObj user_key),
                 (''UpdateExpression'', JStr ''SET age = :age''),
                 (''ExpressionAttributeValues'', JObj [('':age'', JObj [(''N'', JStr ''26'')])])])
    (py_then (print ''  Updated item'')
    (py_bind (boto ''dynamodb'' ''get_item'' [(''TableName'', JStr table_name), (''Key'', JObj user_key)])
       (\<lambda>response.
     py_bind (py_getitem response ''Item'') (\<lambda>item.
     py_bind (py_getitem item ''age'') (\<lambda>age.
     py_bind (py_getitem age ''N'') (\<lambda>age_n.
     py_then (py_assert (age_n = JStr ''26'') ''Update failed'')
    (py_then (print ''  Verified update'')
    (py_then (boto ''dynamodb'' ''delete_item'' [(''TableName'', JStr table_name), (''Key'', JObj user_key)])
    (py_then (print ''  Deleted item'')
    (py_then (boto ''dynamodb'' ''delete_table'' [(''TableName'', JStr table_name)])
    (print (''  Deleted table: '' @ table_name))))))))))))))))))))))))))))))))))"

definition test_dynamodb_operations :: "unit py" where
  "test_dynamodb_operations =
     py_then (print ''Testing DynamoDB operations...'')
    (py_bind uuid4_hex (\<lambda>u.
     let table_name = ''test-table-'' @ take 8 u in
     py_then (try_except (dynamodb_steps table_name)
                (\<lambda>e. py_then (ignore_errors (boto ''dynamodb'' ''delete_table'' [(''TableName'', JStr table_name)]))
                              (raise e)))
             (print (check_mark @ '' DynamoDB operations passed''))))"

definition test_lambda_api :: "unit py" where
  "test_lambda_api =
     py_then (print ''Testing Lambda API...'')
    (py_bind (boto ''lambda'' ''list_functions'' []) (\<lambda>response.
     py_bind (py_get response ''Functions'' (JList [])) (\<lambda>functions.
     py_bind (py_len functions) (\<lambda>n.
     py_then (print (''  Listed functions: '' @ str_nat n @ '' functions''))
             (print (check_mark @ '' Lambda API passed''))))))"

definition tests :: "test list" where
  "tests =
     [(''test_health_check'', test_health_check),
      (''test_s3_operations'', test_s3_operations),
      (''test_dynamodb_operations'', test_dynamodb_operations),
      (''test_lambda_api'', test_lambda_api)]"

definition main :: "world \<Rightarrow> int \<times> world" where
  "main = main_with tests"


section \<open>Concrete runs\<close>

text \<open>A world in which nothing listens on the endpoint: every call fails to connect.\<close>

definition down_world :: world where
  "down_world =
     \<lparr>http = (\<lambda>h. Inl (RequestException ''Connection refused'')),
      aws = (\<lambda>h. Inl (ClientError ''Could not connect to the endpoint URL'')),
      history = [], uuid_hex = (\<lambda>n. ''0123456789abcdef0123456789abcdef''),
      uuid_count = 0, stdout = [], clock = 0\<rparr>"

section \<open>Exit code and failure list of the aggregator\<close>

lemma stdout_print_all: "stdout (print_all ss w) = stdout w @ ss"
  by (induction ss arbitrary: w) (simp_all add: print_def)

lemma failures_empty_iff:
  "failures ts w = [] \<longleftrightarrow> (\<forall>i<length ts. \<exists>u. test_outcome ts i w = Inr u)"
proof -
  have "failure_of ts w i = [] \<longleftrightarrow> (\<exists>u. test_outcome ts i w = Inr u)" for i
    by (cases "test_outcome ts i w") (simp_all add: failure_of_def)
  then show ?thesis by (auto simp: failures_def)
qed

lemma failures_nonempty_iff:
  "failures ts w \<noteq> [] \<longleftrightarrow> (\<exists>i<length ts. \<exists>e. test_outcome ts i w = Inl e)"
proof -
  have "(\<exists>u. test_outcome ts i w = Inr u) \<longleftrightarrow> \<not> (\<exists>e. test_outcome ts i w = Inl e)" for i
    by (cases "test_outcome ts i w") simp_all
  then show ?thesis by (auto simp: failures_empty_iff)
qed

lemma main_with_code:
  "fst (main_with ts w) = (if failures ts (print_header w) = [] then 0 else 1)"
proof -
  obtain f c w2 where r: "run_tests ts [] [] (print_header w) = (f, c, w2)"
    by (cases "run_tests ts [] [] (print_header w)") auto
  have "f = failures ts (print_header w)"
    using run_tests_failures [of ts "print_header w"] r by simp
  then show ?thesis
    using r by (simp add: main_with_def Let_def)
qed

text \<open>
  Claim C4. For every list of tests and every world, \<^verbatim>\<open>main\<close> exits with code 0
  exactly when no test raised in the world the loop ran it in, and with code 1 exactly
  when at least one did.
\<close>

theorem main_exit_code:
  "(fst (main_with ts w) = 0 \<longleftrightarrow>
      (\<forall>i<length ts. \<exists>u. test_outcome ts i (print_header w) = Inr u)) \<and>
   (fst (main_with ts w) = 1 \<longleftrightarrow>
      (\<exists>i<length ts. \<exists>e. test_outcome ts i (print_header w) = Inl e))"
  using failures_empty_iff [of ts "print_header w"] failures_nonempty_iff [of ts "print_header w"]
  by (simp add: main_with_code)

lemma health_check_down:
  "test_outcome tests 0 (print_header down_world) = Inl (RequestException ''Connection refused'')"
  by (simp add: test_outcome_def world_before_def tests_def test_health_check_def py_then_def
      py_bind_def print_def requests_get_def print_header_def down_world_def Let_def)




text \<open>The lines \<^verbatim>\<open>main\<close> prints after the loop, for a given \<open>failed\<close> list.\<close>

definition summary :: "test list \<Rightarrow> (string \<times> string) list \<Rightarrow> string list" where
  "summary ts failed =
     banner #
     (if failed \<noteq> [] then
        (''FAILED: '' @ str_nat (length failed) @ ''/'' @ str_nat (length ts) @ '' tests'')
        # map failure_line failed
      else [''PASSED: '' @ str_nat (length ts) @ ''/'' @ str_nat (length ts) @ '' tests''])"

lemma main_with_stdout:
  "stdout (snd (main_with ts w)) =
     stdout (snd (snd (run_tests ts [] [] (print_header w)))) @ summary ts (failures ts (print_header w))"
proof -
  obtain f c w2 where r: "run_tests ts [] [] (print_header w) = (f, c, w2)"
    by (cases "run_tests ts [] [] (print_header w)") auto
  have "f = failures ts (print_header w)"
    using run_tests_failures [of ts "print_header w"] r by simp
  then show ?thesis
    using r by (simp add: main_with_def Let_def summary_def stdout_print_all print_def)
qed

lemma run_tests_resume:
  "i \<le> length ts \<Longrightarrow>
     snd (snd (run_tests ts [] [] w)) = snd (snd (run_tests (drop i ts) [] [] (world_before ts i w)))"
proof -
  assume "i \<le> length ts"
  obtain f c w1 where r: "run_tests (take i ts) [] [] w = (f, c, w1)"
    by (cases "run_tests (take i ts) [] [] w") auto
  have "run_tests (take i ts @ drop i ts) [] [] w = run_tests (drop i ts) f c w1"
    using r by (simp only: run_tests_append prod.case)
  then have "snd (snd (run_tests ts [] [] w)) = snd (snd (run_tests (drop i ts) f c w1))"
    by simp
  also have "\<dots> = snd (snd (run_tests (drop i ts) [] [] w1))"
    using run_tests_acc [of "drop i ts" f c w1] by simp
  finally show ?thesis using r by (simp add: world_before_def)
qed

lemma failure_in_failures:
  assumes "i < length ts" and "test_outcome ts i w = Inl e"
  shows "(fst (ts ! i), str_exn e) \<in> set (failures ts w)"
proof -
  have "failure_of ts w i = [(fst (ts ! i), str_exn e)]"
    using assms(2) by (simp add: failure_of_def)
  moreover have "i \<in> set [0..<length ts]" using assms(1) by simp
  ultimately show ?thesis
    unfolding failures_def set_concat by (metis (no_types, lifting) UN_I image_eqI list.set_intros(1) set_map)
qed

text \<open>
  Claim C7. For every sequence of tests, a test that raises is recorded and the loop
  goes on: every test of the list is called, in order; from test number \<open>i\<close> on, the
  run is the run of the remaining tests from the world the earlier ones left, whatever
  their outcomes; and the summary printed at the end holds, for every test that raised,
  the line with its name and the text of its exception.
\<close>

theorem failures_contained_and_listed:
  "fst (snd (run_tests ts [] [] (print_header w))) = map fst ts \<and>
   (\<forall>i<length ts.
      snd (snd (run_tests ts [] [] (print_header w))) =
      snd (snd (run_tests (drop i ts) [] [] (world_before ts i (print_header w))))) \<and>
   (\<forall>i<length ts. \<forall>e. test_outcome ts i (print_header w) = Inl e \<longrightarrow>
      failure_line (fst (ts ! i), str_exn e) \<in> set (stdout (snd (main_with ts w)))) \<and>
   stdout (snd (main_with ts w)) =
     stdout (snd (snd (run_tests ts [] [] (print_header w)))) @ summary ts (failures ts (print_header w))"
proof (intro conjI allI impI)
  show "fst (snd (run_tests ts [] [] (print_header w))) = map fst ts"
    by (simp add: run_tests_called)
next
  fix i assume "i < length ts"
  then show "snd (snd (run_tests ts [] [] (print_header w))) =
      snd (snd (run_tests (drop i ts) [] [] (world_before ts i (print_header w))))"
    using run_tests_resume [of i ts "print_header w"] by simp
next
  fix i e assume i: "i < length ts" and e: "test_outcome ts i (print_header w) = Inl e"
  have "(fst (ts ! i), str_exn e) \<in> set (failures ts (print_header w))"
    using failure_in_failures [OF i e] .
  then have "failure_line (fst (ts ! i), str_exn e) \<in> set (summary ts (failures ts (print_header w)))"
    by (auto simp: summary_def)
  then show "failure_line (fst (ts ! i), str_exn e) \<in> set (stdout (snd (main_with ts w)))"
    by (simp add: main_with_stdout)
next
  show "stdout (snd (main_with ts w)) =
     stdout (snd (snd (run_tests ts [] [] (print_header w)))) @ summary ts (failures ts (print_header w))"
    by (rule main_with_stdout)
qed

lemma s3_down:
  "test_outcome tests 1 (print_header down_world) = Inl (ClientError ''Could not connect to the endpoint URL'')"
  by (simp add: test_outcome_def world_before_def tests_def test_health_check_def py_then_def
      py_bind_def print_def requests_get_def print_header_def down_world_def Let_def
      test_s3_operations_def uuid4_hex_def try_except_def s3_steps_def boto_def s3_cleanup_def
      ignore_errors_def ret_def raise_def)

theorem failures_contained_and_listed_witness:
  "test_outcome tests 1 (print_header down_world) = Inl (ClientError ''Could not connect to the endpoint URL'') \<and>
   ''  - test_s3_operations: Could not connect to the endpoint URL'' \<in> set (stdout (snd (main down_world))) \<and>
   fst (snd (run_tests tests [] [] (print_header down_world))) =
     [''test_health_check'', ''test_s3_operations'', ''test_dynamodb_operations'', ''test_lambda_api'']"
proof -
  have len: "1 < length tests" by (simp add: tests_def)
  have nm: "fst (tests ! 1) = ''test_s3_operations''" by (simp add: tests_def)
  have "failure_line (fst (tests ! 1), str_exn (ClientError ''Could not connect to the endpoint URL''))
          \<in> set (stdout (snd (main_with tests down_world)))"
    using failures_contained_and_listed [of tests down_world] s3_down len by blast
  moreover have "fst (snd (run_tests tests [] [] (print_header down_world))) = map fst tests"
    using failures_contained_and_listed [of tests down_world] by blast
  ultimately show ?thesis
    using s3_down nm by (simp add: main_def failure_line_def tests_def)
qed




section \<open>The readiness prober: \<^verbatim>\<open>wait_for_ruststack\<close> of conftest.py\<close>

text \<open>
  \<^verbatim>\<open>
  def wait_for_ruststack(endpoint: str, timeout: float = 30.0) -> bool:
      start = time.time()
      while time.time() - start < timeout:
          try:
              resp = requests.get(f"{endpoint}/health", timeout=1)
              if resp.status_code == 200:
                  return True
          except requests.RequestException:
              pass
          time.sleep(0.1)
      return False
  \<close>
  The probe sees the network only through \<^verbatim>\<open>requests.get\<close>: a call either returns a
  response or raises. The network is a script: for a URL, the outcome of the \<open>k\<close>-th
  request and the time it took. Times are whole milliseconds; the clock advances by
  the duration of a request and by the time slept.
\<close>

datatype attempt = Responds response | Raises exn

type_synonym network = "string \<Rightarrow> nat \<Rightarrow> attempt \<times> nat"

text \<open>
  The loop, with the sleep \<open>interval\<close> as a parameter (the source sleeps 100 ms),
  \<open>elapsed\<close> for \<^verbatim>\<open>time.time() - start\<close> and \<open>k\<close> the number of requests made. The
  result is what the function returns or raises and the elapsed time at that moment; a
  loop that never ends has the value \<open>None\<close>.
\<close>

partial_function (option) wait_loop ::
    "nat \<Rightarrow> (nat \<Rightarrow> attempt \<times> nat) \<Rightarrow> int \<Rightarrow> nat \<Rightarrow> nat \<Rightarrow> ((exn + bool) \<times> nat) option" where
  "wait_loop interval net timeout elapsed k =
     (if int elapsed < timeout then
        (case fst (net k) of
           Responds resp \<Rightarrow>
             if status_code resp = 200 then Some (Inr True, elapsed + snd (net k))
             else wait_loop interval net timeout (elapsed + snd (net k) + interval) (Suc k)
         | Raises e \<Rightarrow>
             if is_RequestException e
             then wait_loop interval net timeout (elapsed + snd (net k) + interval) (Suc k)
             else Some (Inl e, elapsed + snd (net k)))
      else Some (Inr False, elapsed))"

declare wait_loop.simps [code]

definition wait_for_ruststack :: "network \<Rightarrow> string \<Rightarrow> int \<Rightarrow> ((exn + bool) \<times> nat) option" where
  "wait_for_ruststack net endpoint timeout = wait_loop 100 (net (endpoint @ ''/health'')) timeout 0 0"

text \<open>
  The elapsed time at which the loop tests its condition for the \<open>k\<close>-th time, when it
  gets that far: each earlier round took its request and the sleep.
\<close>

fun clock_at :: "nat \<Rightarrow> (nat \<Rightarrow> attempt \<times> nat) \<Rightarrow> nat \<Rightarrow> nat" where
  "clock_at interval net 0 = 0"
| "clock_at interval net (Suc k) = clock_at interval net k + snd (net k) + interval"

text \<open>The attempts after which the loop sleeps and polls again.\<close>

definition not_ready :: "attempt \<Rightarrow> bool" where
  "not_ready a = (case a of Responds resp \<Rightarrow> status_code resp \<noteq> 200 | Raises e \<Rightarrow> is_RequestException e)"

text \<open>What the loop returns when round \<open>n\<close> is the one it stops in.\<close>

definition outcome_at :: "nat \<Rightarrow> (nat \<Rightarrow> attempt \<times> nat) \<Rightarrow> int \<Rightarrow> nat \<Rightarrow> (exn + bool) \<times> nat" where
  "outcome_at interval net timeout n =
     (if int (clock_at interval net n) < timeout then
        (case fst (net n) of
           Responds resp \<Rightarrow> (Inr True, clock_at interval net n + snd (net n))
         | Raises e \<Rightarrow> (Inl e, clock_at interval net n + snd (net n)))
      else (Inr False, clock_at interval net n))"

text \<open>The same attempt with the body of its response removed.\<close>

definition erase_body :: "attempt \<times> nat \<Rightarrow> attempt \<times> nat" where
  "erase_body a =
     (case fst a of
        Responds resp \<Rightarrow> (Responds (resp\<lparr>json_body := None\<rparr>), snd a)
      | Raises e \<Rightarrow> a)"

section \<open>Properties of the readiness prober\<close>

lemma wait_loop_step:
  "int e < T \<Longrightarrow> not_ready (fst (net k)) \<Longrightarrow>
     wait_loop i net T e k = wait_loop i net T (e + snd (net k) + i) (Suc k)"
  by (subst wait_loop.simps) (simp add: not_ready_def split: attempt.splits)

lemma wait_loop_skip:
  "\<forall>j<n. int (clock_at i net j) < T \<and> not_ready (fst (net j)) \<Longrightarrow>
     wait_loop i net T 0 0 = wait_loop i net T (clock_at i net n) n"
proof (induction n)
  case 0
  show ?case by simp
next
  case (Suc n)
  then have "wait_loop i net T 0 0 = wait_loop i net T (clock_at i net n) n"
    by simp
  also have "\<dots> = wait_loop i net T (clock_at i net n + snd (net n) + i) (Suc n)"
    using Suc.prems by (intro wait_loop_step) simp_all
  finally show ?case by simp
qed

lemma wait_loop_stop:
  "\<not> (int e < T \<and> not_ready (fst (net k))) \<Longrightarrow>
     wait_loop i net T e k =
       Some (if int e < T then
               (case fst (net k) of
                  Responds resp \<Rightarrow> (Inr True, e + snd (net k))
                | Raises x \<Rightarrow> (Inl x, e + snd (net k)))
             else (Inr False, e))"
  by (subst wait_loop.simps) (auto simp: not_ready_def split: attempt.splits)

lemma wait_loop_outcome:
  assumes "\<forall>j<n. int (clock_at i net j) < T \<and> not_ready (fst (net j))"
    and "\<not> (int (clock_at i net n) < T \<and> not_ready (fst (net n)))"
  shows "wait_loop i net T 0 0 = Some (outcome_at i net T n)"
proof -
  have "wait_loop i net T 0 0 = wait_loop i net T (clock_at i net n) n"
    using assms(1) by (rule wait_loop_skip)
  also have "\<dots> = Some (outcome_at i net T n)"
    using assms(2) unfolding outcome_at_def by (subst wait_loop_stop) simp_all
  finally show ?thesis .
qed

lemma clock_at_lower: "n * i \<le> clock_at i net n"
  by (induction n) simp_all

lemma wait_loop_stops:
  assumes "0 < i"
  shows "\<exists>n. (\<forall>j<n. int (clock_at i net j) < T \<and> not_ready (fst (net j))) \<and>
             \<not> (int (clock_at i net n) < T \<and> not_ready (fst (net n)))"
proof -
  define P where "P n \<longleftrightarrow> \<not> (int (clock_at i net n) < T \<and> not_ready (fst (net n)))" for n
  have "nat T * i \<le> clock_at i net (nat T)" by (rule clock_at_lower)
  moreover have "nat T \<le> nat T * i" using assms by simp
  ultimately have "T \<le> int (clock_at i net (nat T))" by linarith
  then have "P (nat T)" by (simp add: P_def)
  then have "P (LEAST n. P n)" by (rule LeastI)
  moreover have "\<forall>j<(LEAST n. P n). \<not> P j"
    using not_less_Least by blast
  ultimately show ?thesis unfolding P_def by blast
qed


text \<open>
  The payload \<^verbatim>\<open>test_health_check\<close> accepts as ready: status 200 and a JSON object
  whose \<^verbatim>\<open>status\<close> is \<^verbatim>\<open>"running"\<close>.
\<close>

definition ready_payload :: "response \<Rightarrow> bool" where
  "ready_payload r =
     (status_code r = 200 \<and>
      (case json_body r of
         Some (JObj kv) \<Rightarrow> map_of kv ''status'' = Some (JStr ''running'')
       | _ \<Rightarrow> False))"

text \<open>Networks for concrete runs.\<close>

definition blank_200 :: response where
  "blank_200 = \<lparr>status_code = 200, json_body = None\<rparr>"

definition blank_200_net :: network where
  "blank_200_net url k = (Responds blank_200, 5)"

definition slow_net :: network where
  "slow_net url k = (Raises (RequestException ''timed out''), 1000)"

definition refused_net :: network where
  "refused_net url k = (Raises (RequestException ''Connection refused''), 0)"

definition flaky_net :: network where
  "flaky_net url k =
     (if k = 0 then (Raises (RequestException ''Connection refused''), 0)
      else if k = 1 then (Responds \<lparr>status_code = 503, json_body = None\<rparr>, 20)
      else (Responds \<lparr>status_code = 200, json_body = Some (JObj [(''status'', JStr ''degraded'')])\<rparr>, 20))"

lemma wait_loop_total:
  assumes "0 < i"
  shows "\<exists>n. (\<forall>j<n. int (clock_at i net j) < T \<and> not_ready (fst (net j))) \<and>
             \<not> (int (clock_at i net n) < T \<and> not_ready (fst (net n))) \<and>
             wait_loop i net T 0 0 = Some (outcome_at i net T n)"
  using wait_loop_stops [OF assms, of net T] wait_loop_outcome [of _ i net T] by blast

text \<open>
  Claim C1, amended. For every network, endpoint and timeout, \<^verbatim>\<open>wait_for_ruststack\<close>
  ends after finitely many requests. It returns \<open>True\<close> only when a health request begun
  within the timeout answered with status 200, whatever its body. It returns \<open>False\<close> only
  at an elapsed time of at least the timeout, and it does return \<open>False\<close> when every
  request answers with another status or raises within the \<^verbatim>\<open>RequestException\<close> family.
  It raises only an exception outside that family that a health request raised.
\<close>

theorem wait_for_ruststack_result:
  "\<exists>r t. wait_for_ruststack net ep T = Some (r, t) \<and>
     (r = Inr True \<longrightarrow>
        (\<exists>k resp. fst (net (ep @ ''/health'') k) = Responds resp \<and> status_code resp = 200 \<and>
           int (clock_at 100 (net (ep @ ''/health'')) k) < T)) \<and>
     (r = Inr False \<longrightarrow> T \<le> int t) \<and>
     ((\<forall>k. not_ready (fst (net (ep @ ''/health'') k))) \<longrightarrow> r = Inr False) \<and>
     (\<forall>e. r = Inl e \<longrightarrow> \<not> is_RequestException e \<and> (\<exists>k. fst (net (ep @ ''/health'') k) = Raises e))"
proof -
  define h where "h = net (ep @ ''/health'')"
  obtain n where stop: "\<not> (int (clock_at 100 h n) < T \<and> not_ready (fst (h n)))"
    and res: "wait_loop 100 h T 0 0 = Some (outcome_at 100 h T n)"
    using wait_loop_total [of 100 h T] by auto
  have w: "wait_for_ruststack net ep T = Some (outcome_at 100 h T n)"
    using res by (simp add: wait_for_ruststack_def h_def)
  show ?thesis
  proof (cases "int (clock_at 100 h n) < T")
    case False
    then have "outcome_at 100 h T n = (Inr False, clock_at 100 h n)"
      by (simp add: outcome_at_def)
    with w False show ?thesis by (simp add: h_def)
  next
    case True
    with stop have nr: "\<not> not_ready (fst (h n))" by simp
    show ?thesis
    proof (cases "fst (h n)")
      case (Responds resp)
      with nr have "status_code resp = 200" by (simp add: not_ready_def)
      moreover have "outcome_at 100 h T n = (Inr True, clock_at 100 h n + snd (h n))"
        using True Responds by (simp add: outcome_at_def)
      moreover have "\<not> (\<forall>k. not_ready (fst (h k)))" using nr by blast
      ultimately show ?thesis
        using w True Responds unfolding h_def by auto
    next
      case (Raises e)
      with nr have "\<not> is_RequestException e" by (simp add: not_ready_def)
      moreover have "outcome_at 100 h T n = (Inl e, clock_at 100 h n + snd (h n))"
        using True Raises by (simp add: outcome_at_def)
      moreover have "\<not> (\<forall>k. not_ready (fst (h k)))" using nr by blast
      ultimately show ?thesis
        using w True Raises unfolding h_def by auto
    qed
  qed
qed

theorem wait_for_ruststack_result_witness:
  "\<exists>t. wait_for_ruststack refused_net ''http://localhost:4566'' 250 = Some (Inr False, t) \<and> 250 \<le> int t"
proof -
  have "\<forall>k. not_ready (fst (refused_net (''http://localhost:4566'' @ ''/health'') k))"
    by (simp add: refused_net_def not_ready_def)
  then show ?thesis
    using wait_for_ruststack_result [of refused_net "''http://localhost:4566''" 250] by auto
qed

text \<open>
  Claim C1 as stated fails: every request is answered with status 200 and a body that
  is not JSON, and the probe returns \<open>True\<close> after the first one.
\<close>

theorem ready_without_payload_counterexample:
  "wait_for_ruststack blank_200_net ''http://localhost:4566'' 30000 = Some (Inr True, 5) \<and>
   \<not> ready_payload blank_200"
  by (simp add: wait_for_ruststack_def wait_loop.simps blank_200_net_def blank_200_def ready_payload_def)

text \<open>
  Claim C8, amended. For every timeout \<open>T\<close> and interval \<open>i\<close> with \<open>0 < i < T\<close>, if every
  health request fails within the \<^verbatim>\<open>RequestException\<close> family after at most \<open>d\<close>
  milliseconds, the loop returns \<open>False\<close> at an elapsed time \<open>t\<close> with
  \<open>T \<le> t < T + d + i\<close>.
\<close>

theorem unresponsive_returns_false:
  assumes "0 < i" and "int i < T"
    and "\<forall>k. \<exists>m. fst (net k) = Raises (RequestException m) \<and> snd (net k) \<le> d"
  shows "\<exists>t. wait_loop i net T 0 0 = Some (Inr False, t) \<and> T \<le> int t \<and> int t < T + int d + int i"
proof -
  have nr: "not_ready (fst (net k))" for k
    using assms(3) by (auto simp: not_ready_def dest: spec [of _ k])
  have dur: "snd (net k) \<le> d" for k
    using assms(3) by (auto dest: spec [of _ k])
  obtain n where pre: "\<forall>j<n. int (clock_at i net j) < T \<and> not_ready (fst (net j))"
    and stop: "\<not> (int (clock_at i net n) < T \<and> not_ready (fst (net n)))"
    and res: "wait_loop i net T 0 0 = Some (outcome_at i net T n)"
    using wait_loop_total [OF assms(1), of net T] by auto
  from stop nr have late: "T \<le> int (clock_at i net n)" by auto
  then have out: "outcome_at i net T n = (Inr False, clock_at i net n)"
    by (simp add: outcome_at_def)
  have "n \<noteq> 0" using late assms(2) by (cases n) auto
  then obtain m where n: "n = Suc m" by (cases n) auto
  with pre have "int (clock_at i net m) < T" by simp
  moreover have "clock_at i net n = clock_at i net m + snd (net m) + i" using n by simp
  ultimately have "int (clock_at i net n) < T + int d + int i"
    using dur [of m] by linarith
  with res out late show ?thesis by simp
qed

theorem unresponsive_returns_false_witness:
  "(0::nat) < 100 \<and> int 100 < 250 \<and>
   (\<exists>t. wait_for_ruststack refused_net ''http://localhost:4566'' 250 = Some (Inr False, t) \<and>
        250 \<le> int t \<and> int t < 250 + int 0 + int 100)"
proof -
  have a: "(0::nat) < 100" by simp
  have b: "int 100 < 250" by simp
  have c: "\<forall>k. \<exists>m. fst (refused_net (''http://localhost:4566'' @ ''/health'') k) = Raises (RequestException m) \<and>
             snd (refused_net (''http://localhost:4566'' @ ''/health'') k) \<le> 0"
    by (simp add: refused_net_def)
  show ?thesis
    using unresponsive_returns_false [OF a b c] by (simp add: wait_for_ruststack_def)
qed

text \<open>
  Claim C8 as stated fails: with every request timing out after one second, a timeout
  of 1.5 s and the interval of 0.1 s, the probe returns \<open>False\<close> at 2.2 s, later than
  \<open>T + i\<close>.
\<close>

theorem slow_attempts_counterexample:
  "wait_for_ruststack slow_net ''http://localhost:4566'' 1500 = Some (Inr False, 2200) \<and>
   \<not> (int 2200 \<le> 1500 + 100)"
  by (simp add: wait_for_ruststack_def wait_loop.simps slow_net_def)

lemma erase_body_facts:
  "snd (erase_body a) = snd a" "not_ready (fst (erase_body a)) = not_ready (fst a)"
  by (cases "fst a"; simp add: erase_body_def not_ready_def)+

lemma clock_at_erase: "clock_at i (\<lambda>k. erase_body (net k)) n = clock_at i net n"
  by (induction n) (simp_all add: erase_body_facts)

lemma fst_erase_body:
  "fst a = Responds resp \<Longrightarrow> fst (erase_body a) = Responds (resp\<lparr>json_body := None\<rparr>)"
  "fst a = Raises e \<Longrightarrow> fst (erase_body a) = fst a"
  by (simp_all add: erase_body_def)

lemma outcome_at_erase: "outcome_at i (\<lambda>k. erase_body (net k)) T n = outcome_at i net T n"
proof (cases "fst (net n)")
  case (Responds resp)
  then show ?thesis
    using fst_erase_body(1) [of "net n" resp]
    by (simp add: outcome_at_def clock_at_erase erase_body_facts)
next
  case (Raises e)
  then show ?thesis
    using fst_erase_body(2) [of "net n" e]
    by (simp add: outcome_at_def clock_at_erase erase_body_facts)
qed

lemma wait_loop_erase:
  assumes "0 < i"
  shows "wait_loop i (\<lambda>k. erase_body (net k)) T 0 0 = wait_loop i net T 0 0"
proof -
  obtain n where pre: "\<forall>j<n. int (clock_at i net j) < T \<and> not_ready (fst (net j))"
    and stop: "\<not> (int (clock_at i net n) < T \<and> not_ready (fst (net n)))"
    and res: "wait_loop i net T 0 0 = Some (outcome_at i net T n)"
    using wait_loop_total [OF assms, of net T] by auto
  have "wait_loop i (\<lambda>k. erase_body (net k)) T 0 0 = Some (outcome_at i (\<lambda>k. erase_body (net k)) T n)"
    using pre stop by (intro wait_loop_outcome) (simp_all add: clock_at_erase erase_body_facts)
  with res show ?thesis by (simp add: outcome_at_erase)
qed

text \<open>
  Claim C10. \<^verbatim>\<open>wait_for_ruststack\<close> decides from the status code alone: removing the
  body of every response changes nothing. When round \<open>n\<close> is reached within the timeout
  (every earlier request answered with another status or raised within the
  \<^verbatim>\<open>RequestException\<close> family), a response with status 200 makes it return \<open>True\<close>, an
  exception outside that family is raised to the caller, and an exception of the
  family makes it sleep and go on to the next round.
\<close>

theorem readiness_from_status_alone:
  "wait_for_ruststack (\<lambda>u k. erase_body (net u k)) ep T = wait_for_ruststack net ep T \<and>
   (\<forall>n. (\<forall>j<n. int (clock_at 100 (net (ep @ ''/health'')) j) < T \<and> not_ready (fst (net (ep @ ''/health'') j))) \<and>
         int (clock_at 100 (net (ep @ ''/health'')) n) < T \<longrightarrow>
      (\<forall>resp. fst (net (ep @ ''/health'') n) = Responds resp \<and> status_code resp = 200 \<longrightarrow>
         wait_for_ruststack net ep T =
           Some (Inr True, clock_at 100 (net (ep @ ''/health'')) n + snd (net (ep @ ''/health'') n))) \<and>
      (\<forall>e. fst (net (ep @ ''/health'') n) = Raises e \<and> \<not> is_RequestException e \<longrightarrow>
         wait_for_ruststack net ep T =
           Some (Inl e, clock_at 100 (net (ep @ ''/health'')) n + snd (net (ep @ ''/health'') n))) \<and>
      (\<forall>m. fst (net (ep @ ''/health'') n) = Raises (RequestException m) \<longrightarrow>
         wait_for_ruststack net ep T =
           wait_loop 100 (net (ep @ ''/health'')) T (clock_at 100 (net (ep @ ''/health'')) (Suc n)) (Suc n)))"
proof -
  define h where "h = net (ep @ ''/health'')"
  have erase: "wait_for_ruststack (\<lambda>u k. erase_body (net u k)) ep T = wait_for_ruststack net ep T"
    using wait_loop_erase [of 100 h T] by (simp add: wait_for_ruststack_def h_def)
  have rest: "(\<forall>resp. fst (h n) = Responds resp \<and> status_code resp = 200 \<longrightarrow>
         wait_loop 100 h T 0 0 = Some (Inr True, clock_at 100 h n + snd (h n))) \<and>
      (\<forall>e. fst (h n) = Raises e \<and> \<not> is_RequestException e \<longrightarrow>
         wait_loop 100 h T 0 0 = Some (Inl e, clock_at 100 h n + snd (h n))) \<and>
      (\<forall>m. fst (h n) = Raises (RequestException m) \<longrightarrow>
         wait_loop 100 h T 0 0 = wait_loop 100 h T (clock_at 100 h (Suc n)) (Suc n))"
    if pre: "\<forall>j<n. int (clock_at 100 h j) < T \<and> not_ready (fst (h j))"
      and now: "int (clock_at 100 h n) < T" for n
  proof (intro conjI allI impI)
    fix resp assume "fst (h n) = Responds resp \<and> status_code resp = 200"
    then have "\<not> (int (clock_at 100 h n) < T \<and> not_ready (fst (h n)))"
      and "outcome_at 100 h T n = (Inr True, clock_at 100 h n + snd (h n))"
      using now by (simp_all add: not_ready_def outcome_at_def)
    then show "wait_loop 100 h T 0 0 = Some (Inr True, clock_at 100 h n + snd (h n))"
      using wait_loop_outcome [OF pre] by simp
  next
    fix e assume "fst (h n) = Raises e \<and> \<not> is_RequestException e"
    then have "\<not> (int (clock_at 100 h n) < T \<and> not_ready (fst (h n)))"
      and "outcome_at 100 h T n = (Inl e, clock_at 100 h n + snd (h n))"
      using now by (simp_all add: not_ready_def outcome_at_def)
    then show "wait_loop 100 h T 0 0 = Some (Inl e, clock_at 100 h n + snd (h n))"
      using wait_loop_outcome [OF pre] by simp
  next
    fix m assume "fst (h n) = Raises (RequestException m)"
    then have "not_ready (fst (h n))" by (simp add: not_ready_def)
    with pre now have "\<forall>j<Suc n. int (clock_at 100 h j) < T \<and> not_ready (fst (h j))"
      by (simp add: less_Suc_eq)
    then show "wait_loop 100 h T 0 0 = wait_loop 100 h T (clock_at 100 h (Suc n)) (Suc n)"
      by (rule wait_loop_skip)
  qed
  show ?thesis
    using erase rest unfolding wait_for_ruststack_def h_def by blast
qed

theorem readiness_from_status_alone_witness:
  "wait_for_ruststack flaky_net ''http://localhost:4566'' 30000 = Some (Inr True, 240) \<and>
   wait_for_ruststack (\<lambda>u k. erase_body (flaky_net u k)) ''http://localhost:4566'' 30000 = Some (Inr True, 240)"
proof -
  let ?h = "flaky_net (''http://localhost:4566'' @ ''/health'')"
  have c: "clock_at 100 ?h 0 = 0" "clock_at 100 ?h 1 = 100" "clock_at 100 ?h 2 = 220"
    by (simp_all add: flaky_net_def numeral_2_eq_2)
  have pre: "\<forall>j<2. int (clock_at 100 ?h j) < 30000 \<and> not_ready (fst (?h j))"
    using c by (auto simp: less_Suc_eq numeral_2_eq_2 flaky_net_def not_ready_def)
  have now: "int (clock_at 100 ?h 2) < 30000" using c by simp
  have r: "fst (?h 2) = Responds \<lparr>status_code = 200, json_body = Some (JObj [(''status'', JStr ''degraded'')])\<rparr>
           \<and> status_code \<lparr>status_code = 200, json_body = Some (JObj [(''status'', JStr ''degraded'')])\<rparr> = 200"
    by (simp add: flaky_net_def)
  have "wait_for_ruststack flaky_net ''http://localhost:4566'' 30000 = Some (Inr True, clock_at 100 ?h 2 + snd (?h 2))"
    using readiness_from_status_alone [of flaky_net "''http://localhost:4566''" 30000] pre now r by blast
  moreover have "wait_for_ruststack (\<lambda>u k. erase_body (flaky_net u k)) ''http://localhost:4566'' 30000
      = wait_for_ruststack flaky_net ''http://localhost:4566'' 30000"
    using readiness_from_status_alone [of flaky_net "''http://localhost:4566''" 30000] by blast
  ultimately show ?thesis using c by (simp add: flaky_net_def)
qed




section \<open>The resource fixtures of conftest.py\<close>

text \<open>
  Each resource fixture is a generator: the code before \<^verbatim>\<open>yield\<close> creates the resource
  and gives its identifier, the code after it is the teardown. Both run against the
  same world as the test bodies. The client fixtures (\<^verbatim>\<open>s3_client\<close>, ...) only build
  boto3 clients and make no call.
\<close>

definition dq :: string where
  "dq = [char_of (34::nat)]"

definition nl :: string where
  "nl = [char_of (10::nat)]"

definition s3_bucket_create :: "string py" where
  "s3_bucket_create =
     py_bind uuid4_hex (\<lambda>u.
     let bucket_name = ''test-bucket-'' @ take 8 u in
     py_then (boto ''s3'' ''create_bucket'' [(''Bucket'', JStr bucket_name)])
             (ret bucket_name))"

text \<open>
  \<^verbatim>\<open>
    try:
        response = s3_client.list_objects_v2(Bucket=bucket_name)
        for obj in response.get("Contents", []):
            s3_client.delete_object(Bucket=bucket_name, Key=obj["Key"])
        s3_client.delete_bucket(Bucket=bucket_name)
    except Exception:
        pass  # Best effort cleanup
  \<close>
\<close>

definition s3_bucket_teardown :: "string \<Rightarrow> unit py" where
  "s3_bucket_teardown bucket_name =
     try_except
       (py_bind (boto ''s3'' ''list_objects_v2'' [(''Bucket'', JStr bucket_name)]) (\<lambda>response.
        py_bind (py_get response ''Contents'' (JList [])) (\<lambda>contents.
        py_bind (py_iter contents) (\<lambda>objs.
        py_then (py_for objs (\<lambda>obj.
                   py_bind (py_getitem obj ''Key'') (\<lambda>key.
                   py_then (boto ''s3'' ''delete_object'' [(''Bucket'', JStr bucket_name), (''Key'', key)])
                           (ret ()))))
       (py_then (boto ''s3'' ''delete_bucket'' [(''Bucket'', JStr bucket_name)])
                (ret ()))))))
       (\<lambda>e. ret ())"

definition dynamodb_table_create :: "string py" where
  "dynamodb_table_create =
     py_bind uuid4_hex (\<lambda>u.
     let table_name = ''test-table-'' @ take 8 u in
     py_then (boto ''dynamodb'' ''create_table'' (table_schema table_name))
             (ret table_name))"

definition dynamodb_table_teardown :: "string \<Rightarrow> unit py" where
  "dynamodb_table_teardown table_name =
     try_except
       (py_then (boto ''dynamodb'' ''delete_table'' [(''TableName'', JStr table_name)]) (ret ()))
       (\<lambda>e. ret ())"

definition secret_string :: string where
  "secret_string =
     ''{'' @ dq @ ''username'' @ dq @ '': '' @ dq @ ''admin'' @ dq @ '', ''
         @ dq @ ''password'' @ dq @ '': '' @ dq @ ''secret123'' @ dq @ ''}''"

definition secret_create :: "string py" where
  "secret_create =
     py_bind uuid4_hex (\<lambda>u.
     let secret_name = ''test-secret-'' @ take 8 u in
     py_then (boto ''secretsmanager'' ''create_secret''
                [(''Name'', JStr secret_name), (''SecretString'', JStr secret_string)])
             (ret secret_name))"

definition secret_teardown :: "string \<Rightarrow> unit py" where
  "secret_teardown secret_name =
     try_except
       (py_then (boto ''secretsmanager'' ''delete_secret''
                   [(''SecretId'', JStr secret_name), (''ForceDeleteWithoutRecovery'', JBool True)])
                (ret ()))
       (\<lambda>e. ret ())"

definition assume_role_policy :: string where
  "assume_role_policy =
     ''{'' @ nl @
     ''        '' @ dq @ ''Version'' @ dq @ '': '' @ dq @ ''2012-10-17'' @ dq @ '','' @ nl @
     ''        '' @ dq @ ''Statement'' @ dq @ '': [{'' @ nl @
     ''            '' @ dq @ ''Effect'' @ dq @ '': '' @ dq @ ''Allow'' @ dq @ '','' @ nl @
     ''            '' @ dq @ ''Principal'' @ dq @ '': {'' @ dq @ ''Service'' @ dq @ '': ''
                      @ dq @ ''lambda.amazonaws.com'' @ dq @ ''},'' @ nl @
     ''            '' @ dq @ ''Action'' @ dq @ '': '' @ dq @ ''sts:AssumeRole'' @ dq @ nl @
     ''        }]'' @ nl @
     ''    }''"

definition iam_role_create :: "string py" where
  "iam_role_create =
     py_bind uuid4_hex (\<lambda>u.
     let role_name = ''test-role-'' @ take 8 u in
     py_then (boto ''iam'' ''create_role''
                [(''RoleName'', JStr role_name), (''AssumeRolePolicyDocument'', JStr assume_role_policy)])
             (ret role_name))"

definition iam_role_teardown :: "string \<Rightarrow> unit py" where
  "iam_role_teardown role_name =
     try_except
       (py_bind (boto ''iam'' ''list_attached_role_policies'' [(''RoleName'', JStr role_name)]) (\<lambda>attached.
        py_bind (py_get attached ''AttachedPolicies'' (JList [])) (\<lambda>policies.
        py_bind (py_iter policies) (\<lambda>ps.
        py_then (py_for ps (\<lambda>policy.
                   py_bind (py_getitem policy ''PolicyArn'') (\<lambda>arn.
                   py_then (boto ''iam'' ''detach_role_policy'' [(''RoleName'', JStr role_name), (''PolicyArn'', arn)])
                           (ret ()))))
       (py_then (boto ''iam'' ''delete_role'' [(''RoleName'', JStr role_name)])
                (ret ()))))))
       (\<lambda>e. ret ())"

definition http_api_create :: "json py" where
  "http_api_create =
     py_bind uuid4_hex (\<lambda>u.
     let api_name = ''test-api-'' @ take 8 u in
     py_bind (boto ''apigatewayv2'' ''create_api'' [(''Name'', JStr api_name), (''ProtocolType'', JStr ''HTTP'')])
       (\<lambda>response.
     py_getitem response ''ApiId''))"

definition http_api_teardown :: "json \<Rightarrow> unit py" where
  "http_api_teardown api_id =
     try_except
       (py_then (boto ''apigatewayv2'' ''delete_api'' [(''ApiId'', api_id)]) (ret ()))
       (\<lambda>e. ret ())"

definition delivery_stream_create :: "string \<Rightarrow> string py" where
  "delivery_stream_create s3_bucket =
     py_bind uuid4_hex (\<lambda>u.
     let stream_name = ''test-stream-'' @ take 8 u in
     py_then (boto ''firehose'' ''create_delivery_stream''
                [(''DeliveryStreamName'', JStr stream_name),
                 (''DeliveryStreamType'', JStr ''DirectPut''),
                 (''ExtendedS3DestinationConfiguration'', JObj
                    [(''BucketARN'', JStr (''arn:aws:s3:::'' @ s3_bucket)),
                     (''RoleARN'', JStr ''arn:aws:iam::000000000000:role/firehose-role''),
                     (''BufferingHints'', JObj [(''SizeInMBs'', JInt 1), (''IntervalInSeconds'', JInt 60)])])])
             (ret stream_name))"

definition delivery_stream_teardown :: "string \<Rightarrow> unit py" where
  "delivery_stream_teardown stream_name =
     try_except
       (py_then (boto ''firehose'' ''delete_delivery_stream'' [(''DeliveryStreamName'', JStr stream_name)])
                (ret ()))
       (\<lambda>e. ret ())"

text \<open>A created resource fixture with its identifier, and the teardown that belongs to it.\<close>

datatype fixture =
    S3Bucket string
  | DynamoTable string
  | Secret string
  | IamRole string
  | HttpApi json
  | DeliveryStream string

fun teardown :: "fixture \<Rightarrow> unit py" where
  "teardown (S3Bucket bucket_name) = s3_bucket_teardown bucket_name"
| "teardown (DynamoTable table_name) = dynamodb_table_teardown table_name"
| "teardown (Secret secret_name) = secret_teardown secret_name"
| "teardown (IamRole role_name) = iam_role_teardown role_name"
| "teardown (HttpApi api_id) = http_api_teardown api_id"
| "teardown (DeliveryStream stream_name) = delivery_stream_teardown stream_name"

text \<open>
  How pytest runs a test that requests a yield fixture. The code before \<^verbatim>\<open>yield\<close> runs
  first; if it raises, the test is reported as an error and the code after \<^verbatim>\<open>yield\<close>
  never runs. Otherwise what depends on the fixture runs (\<open>inner\<close>: further fixtures,
  then the test body), and after it the code after \<^verbatim>\<open>yield\<close>, whatever the outcome
  was. An exception of that code is reported as a teardown error beside the verdict of
  the test. A fixture named by a parameter of another fixture is set up before it and
  finalized after it.
\<close>

datatype verdict = Passed | Failed exn | SetupError exn

type_synonym report = "verdict \<times> exn list"

definition run_test :: "unit py \<Rightarrow> world \<Rightarrow> report \<times> world" where
  "run_test body w =
     (case body w of
        (Inr u, w1) \<Rightarrow> ((Passed, []), w1)
      | (Inl e, w1) \<Rightarrow> ((Failed e, []), w1))"

definition with_fixture ::
    "'a py \<Rightarrow> ('a \<Rightarrow> unit py) \<Rightarrow> ('a \<Rightarrow> world \<Rightarrow> report \<times> world) \<Rightarrow> world \<Rightarrow> report \<times> world" where
  "with_fixture setup finalizer inner w =
     (case setup w of
        (Inl e, w1) \<Rightarrow> ((SetupError e, []), w1)
      | (Inr x, w1) \<Rightarrow>
          (case inner x w1 of
             (rep, w2) \<Rightarrow>
               (case finalizer x w2 of
                  (Inr u, w3) \<Rightarrow> (rep, w3)
                | (Inl e, w3) \<Rightarrow> ((fst rep, snd rep @ [e]), w3))))"

text \<open>
  A test that requests \<^verbatim>\<open>delivery_stream\<close>, whose parameter \<^verbatim>\<open>s3_bucket\<close> makes pytest
  set up the bucket first.
\<close>

definition test_with_delivery_stream :: "(string \<Rightarrow> string \<Rightarrow> unit py) \<Rightarrow> world \<Rightarrow> report \<times> world" where
  "test_with_delivery_stream body =
     with_fixture s3_bucket_create s3_bucket_teardown (\<lambda>s3_bucket.
     with_fixture (delivery_stream_create s3_bucket) delivery_stream_teardown (\<lambda>delivery_stream.
     run_test (body s3_bucket delivery_stream)))"

lemma try_except_pass: "fst (try_except m (\<lambda>e. ret ()) w) = Inr ()"
  by (cases "m w") (auto simp: try_except_def ret_def split: sum.splits)

lemma teardown_returns: "fst (teardown f w) = Inr ()"
  by (cases f)
     (simp_all add: s3_bucket_teardown_def dynamodb_table_teardown_def secret_teardown_def
        iam_role_teardown_def http_api_teardown_def delivery_stream_teardown_def try_except_pass)


text \<open>
  Worlds for concrete runs: one in which every call succeeds with an empty result, and
  one in which the bucket holds two objects and no object can be deleted.
\<close>

definition ok_world :: world where
  "ok_world =
     \<lparr>http = (\<lambda>h. Inr \<lparr>status_code = 200, json_body = Some (JObj [(''status'', JStr ''running'')])\<rparr>),
      aws = (\<lambda>h. Inr (JObj [])),
      history = [], uuid_hex = (\<lambda>n. ''0123456789abcdef0123456789abcdef''),
      uuid_count = 0, stdout = [], clock = 0\<rparr>"

definition stuck_reply :: "call \<Rightarrow> exn + json" where
  "stuck_reply c =
     (case c of
        HttpGet url t \<Rightarrow> Inr JNull
      | Boto service op kwargs \<Rightarrow>
          if op = ''list_objects_v2'' then
            Inr (JObj [(''Contents'', JList [JObj [(''Key'', JStr ''a.txt'')], JObj [(''Key'', JStr ''b.txt'')]])])
          else if op = ''delete_object'' then Inl (ClientError ''InternalError'')
          else Inr (JObj []))"

definition stuck_world :: world where
  "stuck_world =
     \<lparr>http = (\<lambda>h. Inl (RequestException ''Connection refused'')),
      aws = (\<lambda>h. stuck_reply (last h)),
      history = [], uuid_hex = (\<lambda>n. ''0123456789abcdef0123456789abcdef''),
      uuid_count = 0, stdout = [], clock = 0\<rparr>"

section \<open>Properties of the fixtures\<close>

lemmas py_defs = py_bind_def py_then_def ret_def raise_def try_except_def ignore_errors_def
  boto_def uuid4_hex_def Let_def

lemma boto_history: "history (snd (boto service op kwargs w)) = history w @ [Boto service op kwargs]"
  by (simp add: boto_def Let_def)

lemma ignore_boto:
  "ignore_errors (boto service op kwargs) w =
     (Inr (), w\<lparr>history := history w @ [Boto service op kwargs]\<rparr>)"
  by (cases "aws w (history w @ [Boto service op kwargs])") (simp_all add: py_defs)

lemma s3_cleanup_history:
  "fst (s3_cleanup b w) = Inr () \<and>
   history (snd (s3_cleanup b w)) =
     history w @ [Boto ''s3'' ''delete_object'' [(''Bucket'', JStr b), (''Key'', JStr object_key)],
                  Boto ''s3'' ''delete_bucket'' [(''Bucket'', JStr b)]]"
  by (simp add: s3_cleanup_def py_then_def py_bind_def ignore_boto)

text \<open>
  Claim C2 fails on the bucket fixture. Its teardown is one \<^verbatim>\<open>try\<close> block, so the first
  error ends it: with two objects in the bucket and a failing \<^verbatim>\<open>delete_object\<close>, it
  lists, tries the first object and stops; the second object and \<^verbatim>\<open>delete_bucket\<close> are
  never attempted. The cleanup of \<^verbatim>\<open>test_s3_operations\<close>, which guards each call on its
  own, attempts both of its calls in the same world.
\<close>

theorem s3_bucket_teardown_aborts:
  "fst (s3_bucket_teardown ''test-bucket-01234567'' stuck_world) = Inr () \<and>
   history (snd (s3_bucket_teardown ''test-bucket-01234567'' stuck_world)) =
     [Boto ''s3'' ''list_objects_v2'' [(''Bucket'', JStr ''test-bucket-01234567'')],
      Boto ''s3'' ''delete_object'' [(''Bucket'', JStr ''test-bucket-01234567''), (''Key'', JStr ''a.txt'')]] \<and>
   history (snd (s3_cleanup ''test-bucket-01234567'' stuck_world)) =
     [Boto ''s3'' ''delete_object'' [(''Bucket'', JStr ''test-bucket-01234567''), (''Key'', JStr object_key)],
      Boto ''s3'' ''delete_bucket'' [(''Bucket'', JStr ''test-bucket-01234567'')]]"
  by (simp add: s3_bucket_teardown_def s3_cleanup_def py_defs stuck_world_def stuck_reply_def
      py_get_def py_iter_def py_getitem_def)

text \<open>
  Claim C5. For every resource fixture and every world (also one where the test body
  has deleted the resource), the teardown returns without raising, and so does a
  second teardown right after it. Under pytest the report of a test (verdict and
  teardown errors) is the same with one teardown, with two, or with none.
\<close>

theorem teardown_twice_never_raises:
  "fst (teardown f w) = Inr () \<and>
   fst (py_then (teardown f) (teardown f) w) = Inr () \<and>
   fst (with_fixture setup (\<lambda>x. teardown (mk x)) inner w) = fst (with_fixture setup (\<lambda>x. ret ()) inner w) \<and>
   fst (with_fixture setup (\<lambda>x. py_then (teardown (mk x)) (teardown (mk x))) inner w) =
     fst (with_fixture setup (\<lambda>x. ret ()) inner w)"
proof -
  have once: "fst (teardown g v) = Inr ()" for g v by (rule teardown_returns)
  have twice: "fst (py_then (teardown g) (teardown g) v) = Inr ()" for g v
    using once [of g v] once [of g "snd (teardown g v)"]
    by (cases "teardown g v") (simp add: py_then_def py_bind_def)
  have rep: "fst (with_fixture setup fin inner w) = fst (with_fixture setup (\<lambda>x. ret ()) inner w)"
    if "\<And>x v. fst (fin x v) = Inr ()" for fin
  proof (cases "setup w")
    case (Pair r w1)
    show ?thesis
    proof (cases r)
      case (Inl e)
      with Pair show ?thesis by (simp add: with_fixture_def)
    next
      case (Inr x)
      obtain rp w2 where i: "inner x w1 = (rp, w2)" by (cases "inner x w1") auto
      obtain u w3 where f: "fin x w2 = (u, w3)" by (cases "fin x w2") auto
      with that [of x w2] have "u = Inr ()" by simp
      with Pair Inr i f show ?thesis by (simp add: with_fixture_def ret_def)
    qed
  qed
  show ?thesis
    using once twice rep [of "\<lambda>x. teardown (mk x)"]
      rep [of "\<lambda>x. py_then (teardown (mk x)) (teardown (mk x))"] by simp
qed

theorem teardown_twice_never_raises_witness:
  "fst (py_then (teardown (Secret ''test-secret-01234567'')) (teardown (Secret ''test-secret-01234567''))
          down_world) = Inr () \<and>
   history (snd (py_then (teardown (Secret ''test-secret-01234567'')) (teardown (Secret ''test-secret-01234567''))
          down_world)) =
     [Boto ''secretsmanager'' ''delete_secret''
        [(''SecretId'', JStr ''test-secret-01234567''), (''ForceDeleteWithoutRecovery'', JBool True)],
      Boto ''secretsmanager'' ''delete_secret''
        [(''SecretId'', JStr ''test-secret-01234567''), (''ForceDeleteWithoutRecovery'', JBool True)]]"
  using teardown_twice_never_raises [of "Secret ''test-secret-01234567''" down_world]
  by (simp add: secret_teardown_def py_defs down_world_def)


text \<open>The calls that create the bucket and the delivery stream that targets it.\<close>

definition create_bucket_call :: "string \<Rightarrow> call" where
  "create_bucket_call b = Boto ''s3'' ''create_bucket'' [(''Bucket'', JStr b)]"

definition create_stream_call :: "string \<Rightarrow> string \<Rightarrow> call" where
  "create_stream_call s b =
     Boto ''firehose'' ''create_delivery_stream''
       [(''DeliveryStreamName'', JStr s),
        (''DeliveryStreamType'', JStr ''DirectPut''),
        (''ExtendedS3DestinationConfiguration'', JObj
           [(''BucketARN'', JStr (''arn:aws:s3:::'' @ b)),
            (''RoleARN'', JStr ''arn:aws:iam::000000000000:role/firehose-role''),
            (''BufferingHints'', JObj [(''SizeInMBs'', JInt 1), (''IntervalInSeconds'', JInt 60)])])]"

lemma s3_bucket_create_ok:
  assumes "aws w (history w @ [create_bucket_call (''test-bucket-'' @ take 8 (uuid_hex w (uuid_count w)))]) = Inr r"
  shows "s3_bucket_create w =
           (Inr (''test-bucket-'' @ take 8 (uuid_hex w (uuid_count w))),
            w\<lparr>uuid_count := uuid_count w + 1,
              history := history w @ [create_bucket_call (''test-bucket-'' @ take 8 (uuid_hex w (uuid_count w)))]\<rparr>)"
  using assms by (simp add: s3_bucket_create_def py_defs create_bucket_call_def)

lemma delivery_stream_create_ok:
  assumes "aws w (history w @ [create_stream_call (''test-stream-'' @ take 8 (uuid_hex w (uuid_count w))) b]) = Inr r"
  shows "delivery_stream_create b w =
           (Inr (''test-stream-'' @ take 8 (uuid_hex w (uuid_count w))),
            w\<lparr>uuid_count := uuid_count w + 1,
              history := history w @ [create_stream_call (''test-stream-'' @ take 8 (uuid_hex w (uuid_count w))) b]\<rparr>)"
  using assms by (simp add: delivery_stream_create_def py_defs create_stream_call_def)

lemma delivery_stream_teardown_history:
  "history (snd (delivery_stream_teardown s w)) =
     history w @ [Boto ''firehose'' ''delete_delivery_stream'' [(''DeliveryStreamName'', JStr s)]]"
  by (cases "aws w (history w @ [Boto ''firehose'' ''delete_delivery_stream'' [(''DeliveryStreamName'', JStr s)]])")
     (simp_all add: delivery_stream_teardown_def py_defs)

text \<open>A computation that only adds calls to the history.\<close>

definition extends_history :: "'a py \<Rightarrow> bool" where
  "extends_history m = (\<forall>w. \<exists>rest. history (snd (m w)) = history w @ rest)"

lemma extends_ret: "extends_history (ret x)"
  by (simp add: extends_history_def ret_def)

lemma extends_raise: "extends_history (raise e)"
  by (simp add: extends_history_def raise_def)

lemma extends_boto: "extends_history (boto service op kwargs)"
  by (simp add: extends_history_def boto_def Let_def)

lemma extends_bind:
  assumes "extends_history m" and "\<And>x. extends_history (f x)"
  shows "extends_history (py_bind m f)"
  unfolding extends_history_def
proof
  fix w
  obtain r w1 where m: "m w = (r, w1)" by (cases "m w") auto
  obtain r1 where h1: "history w1 = history w @ r1"
    using assms(1) m unfolding extends_history_def by (metis snd_conv)
  show "\<exists>rest. history (snd (py_bind m f w)) = history w @ rest"
  proof (cases r)
    case (Inl e)
    with m h1 show ?thesis by (simp add: py_bind_def)
  next
    case (Inr x)
    obtain r2 where "history (snd (f x w1)) = history w1 @ r2"
      using assms(2) [of x] unfolding extends_history_def by blast
    with m h1 Inr show ?thesis by (simp add: py_bind_def)
  qed
qed

lemma extends_then:
  "extends_history m \<Longrightarrow> extends_history k \<Longrightarrow> extends_history (py_then m k)"
  by (simp add: py_then_def extends_bind)

lemma extends_for:
  "(\<And>x. extends_history (body x)) \<Longrightarrow> extends_history (py_for xs body)"
  by (induction xs) (simp_all add: extends_ret extends_then)

lemma extends_get: "extends_history (py_get d k dflt)"
  by (cases d) (simp_all add: py_get_def extends_ret extends_raise)

lemma extends_iter: "extends_history (py_iter x)"
  by (cases x) (simp_all add: py_iter_def extends_ret extends_raise)

lemma extends_getitem: "extends_history (py_getitem d k)"
  by (cases d) (simp_all add: py_getitem_def extends_ret extends_raise split: option.splits)

lemma snd_try_pass: "snd (try_except m (\<lambda>e. ret ()) w) = snd (m w)"
  by (cases "m w") (auto simp: try_except_def ret_def split: sum.splits)

lemma py_bind_history_prefix:
  assumes "\<And>x. extends_history (f x)"
  shows "\<exists>rest. history (snd (py_bind (boto service op kwargs) f w)) =
           history w @ Boto service op kwargs # rest"
proof (cases "aws w (history w @ [Boto service op kwargs])")
  case (Inl e)
  then show ?thesis by (simp add: py_defs)
next
  case (Inr x)
  obtain rest where
    "history (snd (f x (w\<lparr>history := history w @ [Boto service op kwargs]\<rparr>))) =
       history (w\<lparr>history := history w @ [Boto service op kwargs]\<rparr>) @ rest"
    using assms [of x] unfolding extends_history_def by blast
  with Inr show ?thesis by (simp add: py_defs)
qed

lemma s3_bucket_teardown_history:
  "\<exists>rest. history (snd (s3_bucket_teardown b w)) =
     history w @ Boto ''s3'' ''list_objects_v2'' [(''Bucket'', JStr b)] # rest"
  unfolding s3_bucket_teardown_def snd_try_pass
  by (intro py_bind_history_prefix extends_bind extends_then extends_for extends_get extends_iter
        extends_getitem extends_boto extends_ret)

text \<open>
  Claim C3. The delivery-stream fixture consumes the name of the bucket fixture. When
  both creations succeed, the bucket is created first and the stream second, with the
  bucket's ARN; after the test body, the first call is the deletion of the stream, and
  only then does the teardown of the bucket start.
\<close>

theorem dependent_fixture_order:
  assumes b: "b = ''test-bucket-'' @ take 8 (uuid_hex w (uuid_count w))"
    and s: "s = ''test-stream-'' @ take 8 (uuid_hex w (Suc (uuid_count w)))"
    and c1: "aws w (history w @ [create_bucket_call b]) = Inr r1"
    and c2: "aws w (history w @ [create_bucket_call b, create_stream_call s b]) = Inr r2"
  shows "\<exists>w1 w2 w3 rep rest.
           s3_bucket_create w = (Inr b, w1) \<and>
           delivery_stream_create b w1 = (Inr s, w2) \<and>
           history w2 = history w @ [create_bucket_call b, create_stream_call s b] \<and>
           run_test (body b s) w2 = (rep, w3) \<and>
           history (snd (test_with_delivery_stream body w)) =
             history w3 @ Boto ''firehose'' ''delete_delivery_stream'' [(''DeliveryStreamName'', JStr s)]
                        # Boto ''s3'' ''list_objects_v2'' [(''Bucket'', JStr b)] # rest"
proof -
  define w1 where "w1 = w\<lparr>uuid_count := uuid_count w + 1, history := history w @ [create_bucket_call b]\<rparr>"
  define w2 where "w2 = w1\<lparr>uuid_count := uuid_count w1 + 1,
                           history := history w1 @ [create_stream_call s b]\<rparr>"
  have s1: "s3_bucket_create w = (Inr b, w1)"
    using s3_bucket_create_ok [of w r1] c1 unfolding b w1_def by simp
  have c2': "aws w1 (history w1 @ [create_stream_call (''test-stream-'' @ take 8 (uuid_hex w1 (uuid_count w1))) b]) = Inr r2"
    using c2 unfolding w1_def s by simp
  have s2: "delivery_stream_create b w1 = (Inr s, w2)"
    using delivery_stream_create_ok [OF c2'] unfolding w2_def s w1_def by simp
  have h2: "history w2 = history w @ [create_bucket_call b, create_stream_call s b]"
    by (simp add: w2_def w1_def)
  obtain rep w3 where t: "run_test (body b s) w2 = (rep, w3)"
    by (cases "run_test (body b s) w2") auto
  obtain u w4 where d: "delivery_stream_teardown s w3 = (u, w4)"
    by (cases "delivery_stream_teardown s w3") auto
  have h4: "history w4 =
      history w3 @ [Boto ''firehose'' ''delete_delivery_stream'' [(''DeliveryStreamName'', JStr s)]]"
    using delivery_stream_teardown_history [of s w3] d by simp
  obtain rep' where inner:
    "with_fixture (delivery_stream_create b) delivery_stream_teardown
       (\<lambda>delivery_stream. run_test (body b delivery_stream)) w1 = (rep', w4)"
    using s2 t d by (cases u) (simp_all add: with_fixture_def)
  obtain v w5 where e: "s3_bucket_teardown b w4 = (v, w5)"
    by (cases "s3_bucket_teardown b w4") auto
  obtain rest where h5: "history w5 = history w4 @ Boto ''s3'' ''list_objects_v2'' [(''Bucket'', JStr b)] # rest"
    using s3_bucket_teardown_history [of b w4] e by auto
  have "snd (test_with_delivery_stream body w) = w5"
    using s1 inner e by (cases v) (simp_all add: test_with_delivery_stream_def with_fixture_def)
  then have "history (snd (test_with_delivery_stream body w)) =
      history w3 @ Boto ''firehose'' ''delete_delivery_stream'' [(''DeliveryStreamName'', JStr s)]
                 # Boto ''s3'' ''list_objects_v2'' [(''Bucket'', JStr b)] # rest"
    using h5 h4 by simp
  with s1 s2 h2 t show ?thesis by blast
qed

theorem dependent_fixture_order_witness:
  "\<exists>(w3::world) rest.
     history (snd (test_with_delivery_stream (\<lambda>b s. ret ()) ok_world)) =
       history w3 @ Boto ''firehose'' ''delete_delivery_stream'' [(''DeliveryStreamName'', JStr ''test-stream-01234567'')]
                  # Boto ''s3'' ''list_objects_v2'' [(''Bucket'', JStr ''test-bucket-01234567'')] # rest \<and>
     history w3 = [create_bucket_call ''test-bucket-01234567'',
                   create_stream_call ''test-stream-01234567'' ''test-bucket-01234567'']"
proof -
  have b: "''test-bucket-01234567'' = ''test-bucket-'' @ take 8 (uuid_hex ok_world (uuid_count ok_world))"
    by (simp add: ok_world_def)
  have s: "''test-stream-01234567'' = ''test-stream-'' @ take 8 (uuid_hex ok_world (Suc (uuid_count ok_world)))"
    by (simp add: ok_world_def)
  have c1: "aws ok_world (history ok_world @ [create_bucket_call ''test-bucket-01234567'']) = Inr (JObj [])"
    by (simp add: ok_world_def)
  have c2: "aws ok_world (history ok_world @ [create_bucket_call ''test-bucket-01234567'',
              create_stream_call ''test-stream-01234567'' ''test-bucket-01234567'']) = Inr (JObj [])"
    by (simp add: ok_world_def)
  obtain w2 w3 rep rest where
    h2: "history w2 = history ok_world @ [create_bucket_call ''test-bucket-01234567'',
              create_stream_call ''test-stream-01234567'' ''test-bucket-01234567'']"
    and t: "run_test ((\<lambda>b s. ret ()) ''test-bucket-01234567'' ''test-stream-01234567'') w2 = (rep, w3)"
    and h: "history (snd (test_with_delivery_stream (\<lambda>b s. ret ()) ok_world)) =
       history w3 @ Boto ''firehose'' ''delete_delivery_stream'' [(''DeliveryStreamName'', JStr ''test-stream-01234567'')]
                  # Boto ''s3'' ''list_objects_v2'' [(''Bucket'', JStr ''test-bucket-01234567'')] # rest"
    using dependent_fixture_order [OF b s c1 c2, of "\<lambda>b s. ret ()"] by blast
  from t have "w3 = w2" by (simp add: run_test_def ret_def)
  with h2 have h3: "history w3 = [create_bucket_call ''test-bucket-01234567'',
                   create_stream_call ''test-stream-01234567'' ''test-bucket-01234567'']"
    by (simp add: ok_world_def)
  show ?thesis
    apply (rule exI [where x = w3])
    apply (rule exI [where x = rest])
    apply (rule conjI)
     apply (rule h)
    apply (rule h3)
    done
qed




section \<open>The session fixtures of conftest.py: endpoint and managed subprocess\<close>

text \<open>
  How a session fixture ends: it gives its value, an \<^verbatim>\<open>Exception\<close> leaves it, or it
  calls \<^verbatim>\<open>pytest.skip\<close> or \<^verbatim>\<open>pytest.fail\<close>, whose outcomes are not \<^verbatim>\<open>Exception\<close>s.
\<close>

datatype 'a outcome = Returns 'a | Throws exn | PytestSkip string | PytestFail string

text \<open>
  \<^verbatim>\<open>
  def ruststack_endpoint():
      if not wait_for_ruststack(RUSTSTACK_ENDPOINT):
          pytest.skip(...)
      yield RUSTSTACK_ENDPOINT
  \<close>
  with the endpoint (built from the environment, \<^verbatim>\<open>http://localhost:4566\<close> by default) as
  a parameter and the default timeout of 30 s.
\<close>

definition ruststack_endpoint :: "network \<Rightarrow> string \<Rightarrow> string outcome option" where
  "ruststack_endpoint net endpoint =
     map_option
       (\<lambda>r. case fst r of
               Inl e \<Rightarrow> Throws e
             | Inr ready \<Rightarrow>
                 if \<not> ready then
                   PytestSkip (''RustStack not available at '' @ endpoint @ ''. ''
                               @ ''Start it with: docker-compose up -d ruststack'')
                 else Returns endpoint)
       (wait_for_ruststack net endpoint 30000)"

text \<open>
  The subprocess of \<^verbatim>\<open>ruststack_process\<close>: what the fixture does to it, in order, and
  what the fixture can observe of it. \<open>exit_delay\<close> is the time in milliseconds the
  process takes to exit once it is asked to terminate (\<open>None\<close>: it never does);
  \<open>spawn_error\<close> is the error of \<^verbatim>\<open>subprocess.Popen\<close>, if it raises.
\<close>

datatype proc_event = Popen "string list" | Kill | Communicate | Terminate | Wait nat

record proc_env =
  binary_exists :: bool
  spawn_error :: "string option"
  exit_delay :: "nat option"
  proc_stdout :: string
  proc_stderr :: string

record proc_state =
  alive :: bool
  events :: "proc_event list"

type_synonym 'a proc = "proc_state \<Rightarrow> 'a outcome \<times> proc_state"

text \<open>
  \<^verbatim>\<open>proc.kill()\<close>, \<^verbatim>\<open>proc.communicate()\<close> (which waits for the killed process),
  \<^verbatim>\<open>proc.terminate()\<close> and \<^verbatim>\<open>proc.wait(timeout=seconds)\<close>, which raises
  \<^verbatim>\<open>TimeoutExpired\<close> when the process is still running after the timeout.
\<close>

definition proc_kill :: "unit proc" where
  "proc_kill s = (Returns (), s\<lparr>alive := False, events := events s @ [Kill]\<rparr>)"

definition proc_communicate :: "proc_env \<Rightarrow> (string \<times> string) proc" where
  "proc_communicate env s =
     (Returns (proc_stdout env, proc_stderr env), s\<lparr>alive := False, events := events s @ [Communicate]\<rparr>)"

definition proc_terminate :: "unit proc" where
  "proc_terminate s = (Returns (), s\<lparr>events := events s @ [Terminate]\<rparr>)"

definition proc_wait :: "proc_env \<Rightarrow> nat \<Rightarrow> unit proc" where
  "proc_wait env seconds s =
     (let s1 = s\<lparr>events := events s @ [Wait seconds]\<rparr> in
      if \<not> alive s then (Returns (), s1)
      else (case exit_delay env of
              None \<Rightarrow> (Throws (TimeoutExpired (''timed out after '' @ str_nat seconds @ '' seconds'')), s1)
            | Some d \<Rightarrow>
                if d \<le> seconds * 1000 then (Returns (), s1\<lparr>alive := False\<rparr>)
                else (Throws (TimeoutExpired (''timed out after '' @ str_nat seconds @ '' seconds'')), s1)))"

definition proc_bind :: "'a proc \<Rightarrow> ('a \<Rightarrow> 'b proc) \<Rightarrow> 'b proc" where
  "proc_bind m f s =
     (case m s of
        (Returns x, s1) \<Rightarrow> f x s1
      | (Throws e, s1) \<Rightarrow> (Throws e, s1)
      | (PytestSkip m, s1) \<Rightarrow> (PytestSkip m, s1)
      | (PytestFail m, s1) \<Rightarrow> (PytestFail m, s1))"

text \<open>\<^verbatim>\<open>try: body  finally: fin\<close>: an exception of \<open>fin\<close> replaces the outcome of \<open>body\<close>.\<close>

definition try_finally :: "'a proc \<Rightarrow> unit proc \<Rightarrow> 'a proc" where
  "try_finally body fin s =
     (case body s of
        (r, s1) \<Rightarrow>
          (case fin s1 of
             (Returns u, s2) \<Rightarrow> (r, s2)
           | (Throws e, s2) \<Rightarrow> (Throws e, s2)
           | (PytestSkip m, s2) \<Rightarrow> (PytestSkip m, s2)
           | (PytestFail m, s2) \<Rightarrow> (PytestFail m, s2)))"

text \<open>
  \<^verbatim>\<open>
      if not os.path.exists(binary):
          pytest.skip(f"RustStack binary not found at {binary}")
      proc = subprocess.Popen([binary, "--host", "0.0.0.0", "--port", str(RUSTSTACK_PORT)], ...)
      try:
          if not wait_for_ruststack(RUSTSTACK_ENDPOINT):
              proc.kill()
              stdout, stderr = proc.communicate()
              pytest.fail(f"RustStack failed to start.\nstdout: ...\nstderr: ...")
          yield RUSTSTACK_ENDPOINT
      finally:
          proc.terminate()
          proc.wait(timeout=5)
  \<close>
  The result is how the fixture ends once the session is over, and the state of the
  process then. The tests of the session do not touch the process.
\<close>

definition ruststack_process ::
    "proc_env \<Rightarrow> network \<Rightarrow> string \<Rightarrow> string \<Rightarrow> nat \<Rightarrow> (string outcome \<times> proc_state) option" where
  "ruststack_process env net binary endpoint port =
     (let s0 = \<lparr>alive = False, events = []\<rparr> in
      if \<not> binary_exists env then Some (PytestSkip (''RustStack binary not found at '' @ binary), s0)
      else
        (case spawn_error env of
           Some m \<Rightarrow> Some (Throws (OtherException m), s0)
         | None \<Rightarrow>
             map_option
               (\<lambda>r. try_finally
                       (case fst r of
                          Inl e \<Rightarrow> (\<lambda>s. (Throws e, s))
                        | Inr ready \<Rightarrow>
                            if \<not> ready then
                              proc_bind proc_kill (\<lambda>u.
                              proc_bind (proc_communicate env) (\<lambda>oe. (\<lambda>s.
                                (PytestFail (''RustStack failed to start.'' @ nl
                                             @ ''stdout: '' @ fst oe @ nl
                                             @ ''stderr: '' @ snd oe), s))))
                            else (\<lambda>s. (Returns endpoint, s)))
                       (proc_bind proc_terminate (\<lambda>u. proc_wait env 5))
                       \<lparr>alive = True,
                        events = [Popen [binary, ''--host'', ''0.0.0.0'', ''--port'', str_nat port]]\<rparr>)
               (wait_for_ruststack net endpoint 30000)))"

text \<open>
  Concrete runs: a service that is ready at once, a process that ignores the terminate
  signal, and one that exits 200 ms after it.
\<close>

definition ready_net :: network where
  "ready_net url k =
     (Responds \<lparr>status_code = 200, json_body = Some (JObj [(''status'', JStr ''running'')])\<rparr>, 5)"

definition stubborn_env :: proc_env where
  "stubborn_env =
     \<lparr>binary_exists = True, spawn_error = None, exit_delay = None,
      proc_stdout = [], proc_stderr = []\<rparr>"

definition graceful_env :: proc_env where
  "graceful_env =
     \<lparr>binary_exists = True, spawn_error = None, exit_delay = Some 200,
      proc_stdout = [], proc_stderr = []\<rparr>"

section \<open>Properties of the session fixtures and of the missing readiness gate\<close>

lemma ready_now: "wait_for_ruststack ready_net ep 30000 = Some (Inr True, 5)"
  by (simp add: wait_for_ruststack_def wait_loop.simps ready_net_def)

lemma str_nat_5: "str_nat 5 = ''5''"
  by code_simp

lemma str_nat_4566: "str_nat 4566 = ''4566''"
  by code_simp

lemma clock_at_refused: "clock_at 100 (refused_net u) n = 100 * n"
  by (induction n) (simp_all add: refused_net_def)

lemma refused_wait: "wait_loop 100 (refused_net u) (int (100 * n)) 0 0 = Some (Inr False, 100 * n)"
proof -
  have "wait_loop 100 (refused_net u) (int (100 * n)) 0 0 =
          Some (outcome_at 100 (refused_net u) (int (100 * n)) n)"
    by (rule wait_loop_outcome) (simp_all add: clock_at_refused not_ready_def refused_net_def)
  then show ?thesis by (simp add: outcome_at_def clock_at_refused)
qed

lemma refused_probe: "wait_for_ruststack refused_net ep 30000 = Some (Inr False, 30000)"
  using refused_wait [of "ep @ ''/health''" 300] by (simp add: wait_for_ruststack_def)

text \<open>The names of the four checks, in the order of the list in \<^verbatim>\<open>main\<close>.\<close>

definition test_names :: "string list" where
  "test_names = [''test_health_check'', ''test_s3_operations'', ''test_dynamodb_operations'', ''test_lambda_api'']"

text \<open>
  Claim C6, amended. When the probe reports not-ready, the fixture
  \<^verbatim>\<open>ruststack_endpoint\<close> ends in \<^verbatim>\<open>pytest.skip\<close> and gives no endpoint, so nothing that
  depends on it runs. \<^verbatim>\<open>main\<close> of the script has no readiness gate: in every world it
  calls all four checks, in order, and exits with code 1 exactly when at least one of
  them raised, with code 0 otherwise.
\<close>

theorem no_readiness_gate:
  "(\<forall>t. wait_for_ruststack net ep 30000 = Some (Inr False, t) \<longrightarrow>
      ruststack_endpoint net ep =
        Some (PytestSkip (''RustStack not available at '' @ ep @ ''. ''
                          @ ''Start it with: docker-compose up -d ruststack''))) \<and>
   fst (snd (run_tests tests [] [] (print_header w))) = test_names \<and>
   (fst (main w) = 1 \<longleftrightarrow> failures tests (print_header w) \<noteq> []) \<and>
   (fst (main w) = 0 \<longleftrightarrow> failures tests (print_header w) = [])"
proof (intro conjI allI impI)
  fix t assume "wait_for_ruststack net ep 30000 = Some (Inr False, t)"
  then show "ruststack_endpoint net ep =
        Some (PytestSkip (''RustStack not available at '' @ ep @ ''. ''
                          @ ''Start it with: docker-compose up -d ruststack''))"
    by (simp add: ruststack_endpoint_def)
next
  have "map fst tests = test_names" by (simp add: tests_def test_names_def)
  then show "fst (snd (run_tests tests [] [] (print_header w))) = test_names"
    by (simp only: run_tests_called append_Nil)
next
  show "fst (main w) = 1 \<longleftrightarrow> failures tests (print_header w) \<noteq> []"
    by (simp add: main_def main_with_code)
next
  show "fst (main w) = 0 \<longleftrightarrow> failures tests (print_header w) = []"
    by (simp add: main_def main_with_code)
qed

theorem no_readiness_gate_witness:
  "ruststack_endpoint refused_net endpoint_url =
     Some (PytestSkip (''RustStack not available at http://localhost:4566. ''
                       @ ''Start it with: docker-compose up -d ruststack''))"
  using no_readiness_gate [of refused_net endpoint_url down_world] refused_probe [of endpoint_url]
  by (simp add: endpoint_url_def)

lemma history_print_all: "history (print_all ss w) = history w"
  by (induction ss arbitrary: w) (simp_all add: print_def)

lemma main_with_history:
  "history (snd (main_with ts w)) = history (snd (snd (run_tests ts [] [] (print_header w))))"
  by (cases "run_tests ts [] [] (print_header w)")
     (simp add: main_with_def Let_def history_print_all print_def)

lemmas test_defs = tests_def test_health_check_def test_s3_operations_def test_dynamodb_operations_def
  test_lambda_api_def s3_steps_def s3_cleanup_def dynamodb_steps_def

lemma down_run:
  "fst (run_tests tests [] [] (print_header down_world)) =
     [(''test_health_check'', ''Connection refused''),
      (''test_s3_operations'', ''Could not connect to the endpoint URL''),
      (''test_dynamodb_operations'', ''Could not connect to the endpoint URL''),
      (''test_lambda_api'', ''Could not connect to the endpoint URL'')]"
  "length (history (snd (snd (run_tests tests [] [] (print_header down_world))))) = 7"
  by (simp_all add: test_defs py_defs print_def requests_get_def print_header_def down_world_def)

text \<open>
  Claim C6 as stated fails: with nothing listening on the endpoint the probe reports
  not-ready after 30 s, and \<^verbatim>\<open>main\<close> run against the same dead endpoint still calls all
  four checks, which make seven calls to the service and all fail.
\<close>

theorem tests_run_when_not_ready_counterexample:
  "wait_for_ruststack refused_net endpoint_url 30000 = Some (Inr False, 30000) \<and>
   fst (snd (run_tests tests [] [] (print_header down_world))) = test_names \<and>
   length (history (snd (main down_world))) = 7 \<and>
   length (failures tests (print_header down_world)) = 4 \<and>
   fst (main down_world) = 1"
proof -
  have "map fst tests = test_names" by (simp add: tests_def test_names_def)
  then have c: "fst (snd (run_tests tests [] [] (print_header down_world))) = test_names"
    by (simp only: run_tests_called append_Nil)
  have f: "length (failures tests (print_header down_world)) = 4"
    using down_run(1) run_tests_failures [of tests "print_header down_world"] by simp
  then have "failures tests (print_header down_world) \<noteq> []" by auto
  then have e: "fst (main down_world) = 1" by (simp add: main_def main_with_code)
  show ?thesis
    using refused_probe [of endpoint_url] c f e down_run(2)
    by (simp add: main_def main_with_history)
qed


text \<open>The process exits within the five seconds the teardown waits.\<close>

definition exits_in_grace :: "proc_env \<Rightarrow> bool" where
  "exits_in_grace env = (case exit_delay env of None \<Rightarrow> False | Some d \<Rightarrow> d \<le> 5000)"

definition popen_event :: "string \<Rightarrow> nat \<Rightarrow> proc_event" where
  "popen_event binary port = Popen [binary, ''--host'', ''0.0.0.0'', ''--port'', str_nat port]"

definition timeout_expired :: exn where
  "timeout_expired = TimeoutExpired ''timed out after 5 seconds''"

lemma teardown_alive:
  "proc_bind proc_terminate (\<lambda>u. proc_wait env 5) \<lparr>alive = True, events = evs\<rparr> =
     (if exits_in_grace env then (Returns (), \<lparr>alive = False, events = evs @ [Terminate, Wait 5]\<rparr>)
      else (Throws timeout_expired, \<lparr>alive = True, events = evs @ [Terminate, Wait 5]\<rparr>))"
  by (cases "exit_delay env")
     (simp_all add: proc_bind_def proc_terminate_def proc_wait_def Let_def exits_in_grace_def
        timeout_expired_def str_nat_5)

lemma teardown_dead:
  "proc_bind proc_terminate (\<lambda>u. proc_wait env 5) \<lparr>alive = False, events = evs\<rparr> =
     (Returns (), \<lparr>alive = False, events = evs @ [Terminate, Wait 5]\<rparr>)"
  by (simp add: proc_bind_def proc_terminate_def proc_wait_def Let_def)

lemma wait_for_ruststack_total: "\<exists>res t. wait_for_ruststack net ep T = Some (res, t)"
proof -
  obtain n where "wait_loop 100 (net (ep @ ''/health'')) T 0 0 =
      Some (outcome_at 100 (net (ep @ ''/health'')) T n)"
    using wait_loop_total [of 100 "net (ep @ ''/health'')" T] by auto
  then show ?thesis
    by (cases "outcome_at 100 (net (ep @ ''/health'')) T n") (simp add: wait_for_ruststack_def)
qed

lemma process_ready:
  assumes "binary_exists env" and "spawn_error env = None"
    and "wait_for_ruststack net ep 30000 = Some (Inr True, t)"
  shows "ruststack_process env net binary ep port =
     Some (if exits_in_grace env then Returns ep else Throws timeout_expired,
           \<lparr>alive = \<not> exits_in_grace env, events = [popen_event binary port, Terminate, Wait 5]\<rparr>)"
  using assms
  by (simp add: ruststack_process_def Let_def try_finally_def teardown_alive popen_event_def)

lemma process_not_ready:
  assumes "binary_exists env" and "spawn_error env = None"
    and "wait_for_ruststack net ep 30000 = Some (Inr False, t)"
  shows "ruststack_process env net binary ep port =
     Some (PytestFail (''RustStack failed to start.'' @ nl @ ''stdout: '' @ proc_stdout env @ nl
                       @ ''stderr: '' @ proc_stderr env),
           \<lparr>alive = False,
            events = [popen_event binary port, Kill, Communicate, Terminate, Wait 5]\<rparr>)"
  using assms
  by (simp add: ruststack_process_def Let_def try_finally_def proc_bind_def proc_kill_def
      proc_communicate_def proc_terminate_def proc_wait_def popen_event_def)

lemma process_probe_raises:
  assumes "binary_exists env" and "spawn_error env = None"
    and "wait_for_ruststack net ep 30000 = Some (Inl e, t)"
  shows "ruststack_process env net binary ep port =
     Some (if exits_in_grace env then Throws e else Throws timeout_expired,
           \<lparr>alive = \<not> exits_in_grace env, events = [popen_event binary port, Terminate, Wait 5]\<rparr>)"
  using assms
  by (simp add: ruststack_process_def Let_def try_finally_def teardown_alive popen_event_def)

text \<open>
  Claim C9, amended. Once the subprocess is started, every exit path of the fixture
  ends with \<^verbatim>\<open>terminate\<close> followed by \<^verbatim>\<open>wait(timeout=5)\<close> and nothing after them; the
  only \<^verbatim>\<open>kill\<close> is the one of the failed start-up, before the teardown. When the
  process has not exited after the five seconds, the teardown raises
  \<^verbatim>\<open>TimeoutExpired\<close> and leaves the process running; otherwise the fixture ends as its
  body did.
\<close>

theorem subprocess_teardown:
  assumes "binary_exists env" and "spawn_error env = None"
  shows "\<exists>res t r s mid.
           wait_for_ruststack net ep 30000 = Some (res, t) \<and>
           ruststack_process env net binary ep port = Some (r, s) \<and>
           events s = popen_event binary port # mid @ [Terminate, Wait 5] \<and>
           (if res = Inr False then mid = [Kill, Communicate] else mid = []) \<and>
           (res \<noteq> Inr False \<and> \<not> exits_in_grace env \<longrightarrow> r = Throws timeout_expired \<and> alive s) \<and>
           (res = Inr True \<and> exits_in_grace env \<longrightarrow> r = Returns ep \<and> \<not> alive s) \<and>
           (\<forall>e. res = Inl e \<and> exits_in_grace env \<longrightarrow> r = Throws e \<and> \<not> alive s) \<and>
           (res = Inr False \<longrightarrow>
              r = PytestFail (''RustStack failed to start.'' @ nl @ ''stdout: '' @ proc_stdout env @ nl
                              @ ''stderr: '' @ proc_stderr env) \<and> \<not> alive s)"
proof -
  obtain res t where w: "wait_for_ruststack net ep 30000 = Some (res, t)"
    using wait_for_ruststack_total [of net ep 30000] by blast
  show ?thesis
  proof (cases res)
    case (Inl e)
    show ?thesis
      using w Inl process_probe_raises [OF assms, of net ep e t binary port]
      by (intro exI [of _ res] exI [of _ t] exI [of _ "[]"] exI conjI) auto
  next
    case (Inr ready)
    show ?thesis
    proof (cases ready)
      case True
      show ?thesis
        using w Inr True process_ready [OF assms, of net ep t binary port]
        by (intro exI [of _ res] exI [of _ t] exI [of _ "[]"] exI conjI) auto
    next
      case False
      show ?thesis
        using w Inr False process_not_ready [OF assms, of net ep t binary port]
        by (intro exI [of _ res] exI [of _ t] exI [of _ "[Kill, Communicate]"] exI conjI) auto
    qed
  qed
qed


theorem subprocess_teardown_witness:
  "binary_exists graceful_env \<and> spawn_error graceful_env = None \<and>
   (\<exists>s. ruststack_process graceful_env ready_net ''./target/release/ruststack'' endpoint_url 4566 =
          Some (Returns endpoint_url, s) \<and>
        events s = [popen_event ''./target/release/ruststack'' 4566, Terminate, Wait 5] \<and>
        \<not> alive s)"
proof -
  have a: "binary_exists graceful_env" by (simp add: graceful_env_def)
  have b: "spawn_error graceful_env = None" by (simp add: graceful_env_def)
  have g: "exits_in_grace graceful_env" by (simp add: exits_in_grace_def graceful_env_def)
  obtain res t r s mid where
    w: "wait_for_ruststack ready_net endpoint_url 30000 = Some (res, t)"
    and p: "ruststack_process graceful_env ready_net ''./target/release/ruststack'' endpoint_url 4566 = Some (r, s)"
    and ev: "events s = popen_event ''./target/release/ruststack'' 4566 # mid @ [Terminate, Wait 5]"
    and m: "if res = Inr False then mid = [Kill, Communicate] else mid = []"
    and ok: "res = Inr True \<and> exits_in_grace graceful_env \<longrightarrow> r = Returns endpoint_url \<and> \<not> alive s"
    using subprocess_teardown [OF a b, of ready_net endpoint_url "''./target/release/ruststack''" 4566]
    by blast
  from w have res: "res = Inr True" by (simp add: ready_now)
  with ok g have "r = Returns endpoint_url" and "\<not> alive s" by simp_all
  moreover from m res have "mid = []" by simp
  ultimately have "ruststack_process graceful_env ready_net ''./target/release/ruststack'' endpoint_url 4566 =
          Some (Returns endpoint_url, s) \<and>
        events s = [popen_event ''./target/release/ruststack'' 4566, Terminate, Wait 5] \<and>
        \<not> alive s"
    using p ev by simp
  then have "\<exists>s. ruststack_process graceful_env ready_net ''./target/release/ruststack'' endpoint_url 4566 =
          Some (Returns endpoint_url, s) \<and>
        events s = [popen_event ''./target/release/ruststack'' 4566, Terminate, Wait 5] \<and>
        \<not> alive s"
    by (rule exI)
  with a b show ?thesis by (intro conjI)
qed

text \<open>
  Claim C9 as stated fails: for a process that ignores the terminate signal the
  teardown raises \<^verbatim>\<open>TimeoutExpired\<close>, sends no \<^verbatim>\<open>kill\<close>, and the process stays alive.
\<close>

theorem teardown_raises_counterexample:
  "ruststack_process stubborn_env ready_net ''./target/release/ruststack'' endpoint_url 4566 =
     Some (Throws (TimeoutExpired ''timed out after 5 seconds''),
           \<lparr>alive = True,
            events = [Popen [''./target/release/ruststack'', ''--host'', ''0.0.0.0'', ''--port'', ''4566''],
                      Terminate, Wait 5]\<rparr>)"
  by (simp add: ruststack_process_def ready_now stubborn_env_def try_finally_def proc_bind_def
      proc_terminate_def proc_wait_def Let_def str_nat_5 str_nat_4566)




section \<open>A passing run and a failing run of the script\<close>

text \<open>
  A service that answers every call of the four checks the way they expect: the health
  endpoint says running, the bucket and the object are listed, the table is active,
  the item reads back.
\<close>

definition happy_reply :: "call \<Rightarrow> exn + json" where
  "happy_reply c =
     (case c of
        HttpGet url t \<Rightarrow> Inr JNull
      | Boto service op kwargs \<Rightarrow>
          if op = ''list_buckets'' then
            Inr (JObj [(''Buckets'', JList [JObj [(''Name'', JStr ''test-bucket-01234567'')]])])
          else if op = ''get_object'' then Inr (JObj [(''Body'', JStr ''Hello, RustStack!'')])
          else if op = ''list_objects_v2'' then
            Inr (JObj [(''Contents'', JList [JObj [(''Key'', JStr ''test-object.txt'')]])])
          else if op = ''describe_table'' then
            Inr (JObj [(''Table'', JObj [(''TableStatus'', JStr ''ACTIVE'')])])
          else if op = ''get_item'' then
            Inr (JObj [(''Item'', JObj [(''name'', JObj [(''S'', JStr ''Test User'')]),
                                        (''age'', JObj [(''N'', JStr ''26'')])])])
          else if op = ''query'' then Inr (JObj [(''Items'', JList [user_item])])
          else if op = ''list_functions'' then Inr (JObj [(''Functions'', JList [])])
          else Inr (JObj []))"

definition happy_world :: world where
  "happy_world =
     \<lparr>http = (\<lambda>h. Inr \<lparr>status_code = 200, json_body = Some (JObj [(''status'', JStr ''running'')])\<rparr>),
      aws = (\<lambda>h. happy_reply (last h)),
      history = [], uuid_hex = (\<lambda>n. ''0123456789abcdef0123456789abcdef''),
      uuid_count = 0, stdout = [], clock = 0\<rparr>"


lemma happy_run:
  "fst (run_tests tests [] [] (print_header happy_world)) = []"
  by (simp add: test_defs py_defs print_def requests_get_def print_header_def happy_world_def
      happy_reply_def py_assert_def response_json_def py_get_def py_getitem_def py_iter_def
      py_len_def py_first_def py_read_def time_sleep_def object_key_def object_content_def
      user_item_def)


theorem main_exit_code_witness:
  "fst (main down_world) = 1 \<and>
   test_outcome tests 0 (print_header down_world) = Inl (RequestException ''Connection refused'') \<and>
   fst (main happy_world) = 0"
proof -
  have len: "0 < length tests" by (simp add: tests_def)
  have "\<exists>i<length tests. \<exists>e. test_outcome tests i (print_header down_world) = Inl e"
    using health_check_down len by blast
  then have down: "fst (main down_world) = 1"
    using main_exit_code [of tests down_world] by (simp add: main_def)
  have "failures tests (print_header happy_world) = []"
    using happy_run run_tests_failures [of tests "print_header happy_world"] by simp
  then have "\<forall>i<length tests. \<exists>u. test_outcome tests i (print_header happy_world) = Inr u"
    by (simp only: failures_empty_iff)
  then have "fst (main happy_world) = 0"
    using main_exit_code [of tests happy_world] by (simp add: main_def)
  with down health_check_down show ?thesis by simp
qed

end
